theory Spec2Isabelle
  imports Main "HOL-Library.Word" "HOL-Library.Sublist"
begin

section \<open>AdGuardHome configuration store (config.go)\<close>

text \<open>
  A shallow embedding of \<^verbatim>\<open>config.go\<close>: the configuration structs with their YAML
  tags, the built-in default value \<^verbatim>\<open>config\<close>, and the functions
  \<^verbatim>\<open>getConfigFilename\<close>, \<^verbatim>\<open>getLogSettings\<close>, \<^verbatim>\<open>parseConfig\<close>,
  \<^verbatim>\<open>readConfigFile\<close>, \<^verbatim>\<open>configuration.write\<close> and \<^verbatim>\<open>writeAllConfigs\<close>.

  The single global \<^verbatim>\<open>config\<close> is passed explicitly (and returned where the
  code mutates it); the file system is a \<open>world\<close> value that is passed and returned.
  Calls to \<^verbatim>\<open>log.Printf\<close> and \<^verbatim>\<open>log.Tracef\<close> only print and are left out. The
  \<^verbatim>\<open>sync.RWMutex\<close> embedded in the struct is left out: the model is sequential.
\<close>

subsection \<open>Basic types\<close>

text \<open>A Go \<^verbatim>\<open>[]byte\<close> or \<^verbatim>\<open>string\<close>: a list of 8-bit characters.\<close>

type_synonym bytes = string

text \<open>Go's \<^verbatim>\<open>int\<close>, taken at 64 bits; \<open>sint\<close> reads its value.\<close>

type_synonym go_int = "64 word"

text \<open>\<^verbatim>\<open>time.Time\<close> is only stored, never inspected; its zero value is \<open>0\<close>.\<close>

type_synonym time_Time = int

subsection \<open>YAML documents (gopkg.in/yaml.v2)\<close>

text \<open>
  The YAML library is an external dependency. Its scanner and emitter (bytes to node tree
  and back) are parameters of the model, see \<open>externals\<close> below. What the library
  does with a node tree and a Go value is fixed by the types and tags of the structs in
  \<^verbatim>\<open>config.go\<close>, and is modelled here.

  A node is a scalar, a sequence or a mapping. A scalar is kept as the library resolves it:
  null, a boolean, an integer or a string; booleans and integers also keep their text in
  the document, which is what the library stores when the target is a Go string. Floats,
  timestamps, anchors and merge keys are not represented. Mapping keys are the text of
  the key scalars, which is how the library reads them for a struct target.
\<close>

datatype yaml =
    YNull
  | YBool string bool
  | YInt string int
  | YStr string
  | YSeq "yaml list"
  | YMap "(string \<times> yaml) list"

text \<open>What the library's parser makes of the bytes of a file.\<close>

datatype parsed =
    SyntaxError string  \<comment> \<open>the bytes are not a YAML document\<close>
  | NoDocument          \<comment> \<open>the stream holds no document (an empty file)\<close>
  | Document yaml

text \<open>One entry of \<^verbatim>\<open>yaml.TypeError\<close>: the Go type a node could not be decoded into.\<close>

datatype terror = CannotUnmarshalInto string

datatype error =
    ReadFileError string
  | YamlSyntaxError string
  | YamlTypeError "terror list"
  | MarshalError
  | WriteFileError string

text \<open>
  The result of decoding one node into a Go value (\<^verbatim>\<open>decoder.unmarshal\<close>): either
  the value was set (the library's \<open>good\<close>), possibly with type errors collected further
  down, or the node does not fit and the target is left as it was.
\<close>

datatype 'a decoded = Decoded 'a "terror list" | Failed "terror list"

subsubsection \<open>Scalars\<close>

fun digit :: "nat \<Rightarrow> char" where
  "digit n = char_of (48 + n)"

function utoa :: "nat \<Rightarrow> string" where
  "utoa n = (if n < 10 then [digit n] else utoa (n div 10) @ [digit (n mod 10)])"
  by pat_completeness auto
termination
  by (relation "measure (\<lambda>n. n)") auto

text \<open>\<^verbatim>\<open>strconv.FormatInt(i, 10)\<close>, the text the encoder writes for an integer.\<close>

definition FormatInt :: "int \<Rightarrow> string" where
  "FormatInt i = (if i < 0 then CHR ''-'' # utoa (nat (- i)) else utoa (nat i))"

definition enc_string :: "string \<Rightarrow> yaml" where
  "enc_string s = YStr s"

definition enc_bool :: "bool \<Rightarrow> yaml" where
  "enc_bool b = YBool (if b then ''true'' else ''false'') b"

definition enc_int :: "go_int \<Rightarrow> yaml" where
  "enc_int i = YInt (FormatInt (sint i)) (sint i)"

text \<open>
  Decoding a node into a Go string: a null sets the zero value, any other scalar sets
  its text, a sequence or a mapping is a type error.
\<close>

fun dec_string :: "yaml \<Rightarrow> string \<Rightarrow> string decoded" where
  "dec_string YNull cur = Decoded [] []"
| "dec_string (YStr s) cur = Decoded s []"
| "dec_string (YBool raw b) cur = Decoded raw []"
| "dec_string (YInt raw i) cur = Decoded raw []"
| "dec_string (YSeq ys) cur = Failed [CannotUnmarshalInto ''string'']"
| "dec_string (YMap kvs) cur = Failed [CannotUnmarshalInto ''string'']"

fun dec_bool :: "yaml \<Rightarrow> bool \<Rightarrow> bool decoded" where
  "dec_bool YNull cur = Decoded False []"
| "dec_bool (YBool raw b) cur = Decoded b []"
| "dec_bool y cur = Failed [CannotUnmarshalInto ''bool'']"

text \<open>Into a Go \<^verbatim>\<open>int\<close>: an integer that overflows the type is a type error.\<close>

fun dec_int :: "yaml \<Rightarrow> go_int \<Rightarrow> go_int decoded" where
  "dec_int YNull cur = Decoded 0 []"
| "dec_int (YInt raw i) cur =
     (if - (2 ^ 63) \<le> i \<and> i < 2 ^ 63 then Decoded (word_of_int i) []
      else Failed [CannotUnmarshalInto ''int''])"
| "dec_int y cur = Failed [CannotUnmarshalInto ''int'']"

subsubsection \<open>Sequences\<close>

definition enc_seq :: "('a \<Rightarrow> yaml) \<Rightarrow> 'a list \<Rightarrow> yaml" where
  "enc_seq enc xs = YSeq (map enc xs)"

text \<open>
  \<^verbatim>\<open>decoder.sequence\<close> into a slice: a fresh slice replaces the old one; every element
  is decoded into a fresh zero value and kept when it decoded; type errors accumulate.
\<close>

fun dec_elems :: "(yaml \<Rightarrow> 'a \<Rightarrow> 'a decoded) \<Rightarrow> 'a \<Rightarrow> yaml list \<Rightarrow> 'a list \<times> terror list" where
  "dec_elems dec zero [] = ([], [])"
| "dec_elems dec zero (y # ys) =
     (case dec_elems dec zero ys of (vs, es) \<Rightarrow>
        (case dec y zero of
           Decoded v es1 \<Rightarrow> (v # vs, es1 @ es)
         | Failed es1 \<Rightarrow> (vs, es1 @ es)))"

fun dec_seq :: "(yaml \<Rightarrow> 'a \<Rightarrow> 'a decoded) \<Rightarrow> 'a \<Rightarrow> yaml \<Rightarrow> 'a list \<Rightarrow> 'a list decoded" where
  "dec_seq dec zero YNull cur = Decoded [] []"
| "dec_seq dec zero (YSeq ys) cur = (case dec_elems dec zero ys of (vs, es) \<Rightarrow> Decoded vs es)"
| "dec_seq dec zero y cur = Failed [CannotUnmarshalInto ''slice'']"

subsubsection \<open>Structs\<close>

text \<open>
  A struct is known to the library by its exported fields in declaration order, each with
  the key of its \<^verbatim>\<open>yaml:"..."\<close> tag; a field tagged \<^verbatim>\<open>yaml:"-"\<close> is skipped and the
  fields of one tagged \<^verbatim>\<open>yaml:",inline"\<close> are spliced in at its place. A \<open>yfield\<close> is one
  such entry: the key, how the field of a struct value is encoded, and how a node is
  decoded into the field of a struct value (the result of
  \<^verbatim>\<open>d.unmarshal(n.children[i+1], field)\<close> is ignored by \<^verbatim>\<open>mappingStruct\<close>, so only
  the updated struct and the type errors remain).
\<close>

datatype 's yfield =
  YField (fkey: string) (fenc: "'s \<Rightarrow> yaml") (fdec: "yaml \<Rightarrow> 's \<Rightarrow> 's \<times> terror list")

definition field ::
  "string \<Rightarrow> ('a \<Rightarrow> yaml) \<Rightarrow> (yaml \<Rightarrow> 'a \<Rightarrow> 'a decoded) \<Rightarrow> ('s \<Rightarrow> 'a) \<Rightarrow> ('a \<Rightarrow> 's \<Rightarrow> 's) \<Rightarrow> 's yfield" where
  "field k enc dec getf putf =
     YField k (\<lambda>s. enc (getf s))
       (\<lambda>y s. case dec y (getf s) of Decoded v es \<Rightarrow> (putf v s, es) | Failed es \<Rightarrow> (s, es))"

definition inline :: "('s \<Rightarrow> 't) \<Rightarrow> ('t \<Rightarrow> 's \<Rightarrow> 's) \<Rightarrow> 't yfield list \<Rightarrow> 's yfield list" where
  "inline getf putf fs =
     map (\<lambda>f. YField (fkey f) (\<lambda>s. fenc f (getf s))
                (\<lambda>y s. case fdec f y (getf s) of (t, es) \<Rightarrow> (putf t s, es))) fs"

text \<open>Encoding a struct: one mapping entry per field, in field order.\<close>

definition enc_struct :: "'s yfield list \<Rightarrow> 's \<Rightarrow> yaml" where
  "enc_struct fs s = YMap (map (\<lambda>f. (fkey f, fenc f s)) fs)"

text \<open>
  \<^verbatim>\<open>decoder.mappingStruct\<close>: the entries of the mapping are taken in document order; an
  entry whose key names a field is decoded into that field, any other entry is skipped.
\<close>

definition mapping_step :: "'s yfield list \<Rightarrow> 's \<times> terror list \<Rightarrow> string \<times> yaml \<Rightarrow> 's \<times> terror list" where
  "mapping_step fs acc kv =
     (case acc of (s, es) \<Rightarrow>
        (case find (\<lambda>f. fkey f = fst kv) fs of
           None \<Rightarrow> (s, es)
         | Some f \<Rightarrow> (case fdec f (snd kv) s of (s', es') \<Rightarrow> (s', es @ es'))))"

fun dec_struct :: "'s yfield list \<Rightarrow> 's \<Rightarrow> yaml \<Rightarrow> 's \<Rightarrow> 's decoded" where
  "dec_struct fs zero YNull cur = Decoded zero []"
| "dec_struct fs zero (YMap kvs) cur =
     (case foldl (mapping_step fs) (cur, []) kvs of (s, es) \<Rightarrow> Decoded s es)"
| "dec_struct fs zero y cur = Failed [CannotUnmarshalInto ''struct'']"

text \<open>The keys of a mapping node, in document order.\<close>

fun yaml_keys :: "yaml \<Rightarrow> string list" where
  "yaml_keys (YMap kvs) = map fst kvs"
| "yaml_keys y = []"

text \<open>The value under a key of a mapping node.\<close>

fun yaml_get :: "string \<Rightarrow> yaml \<Rightarrow> yaml option" where
  "yaml_get k (YMap kvs) = map_of kvs k"
| "yaml_get k y = None"

subsection \<open>The configuration structs\<close>

record logSettings =
  LogFile :: string
  Verbose :: bool

text \<open>
  Modelled from the spec: \<^verbatim>\<open>dnsforward.FilteringConfig\<close> is declared in another package.
  Its fields are those the default value in \<^verbatim>\<open>config.go\<close> names; their keys follow the
  spec's list for the \<open>dns\<close> section (protection-enabled, filtering-enabled,
  blocked-response-ttl, query-log-enabled, ratelimit, refuse-any, bootstrap-dns).
\<close>

record FilteringConfig =
  ProtectionEnabled :: bool
  FilteringEnabled :: bool
  BlockedResponseTTL :: go_int
  QueryLogEnabled :: bool
  Ratelimit :: go_int
  RefuseAny :: bool
  BootstrapDNS :: string

record dnsConfig =
  BindHost :: string
  Port :: go_int
  FilteringConfig :: FilteringConfig
  UpstreamDNS :: "string list"

text \<open>
  \<^verbatim>\<open>dnsforward.TLSConfig\<close> (the certificate and key fields) is declared in another
  package: it is the type parameter \<open>'tlsc\<close>.
\<close>

record 'tlsc tlsConfigSettings =
  Enabled :: bool
  ServerName :: string
  ForceHTTPS :: bool
  PortHTTPS :: go_int
  PortDNSOverTLS :: go_int
  TLSConfig :: 'tlsc

record tlsConfigStatus =
  ValidChain :: bool
  Subject :: string
  Issuer :: string
  NotBefore :: time_Time
  NotAfter :: time_Time
  DNSNames :: "string list"
  StatusCertificate :: string
  ValidKey :: bool
  KeyType :: string
  Warning :: string
  WarningValidation :: string

record 'tlsc tlsConfig =
  tlsConfigSettings :: "'tlsc tlsConfigSettings"
  tlsConfigStatus :: tlsConfigStatus

text \<open>
  Modelled from the spec: the struct \<^verbatim>\<open>filter\<close> and the embedded \<^verbatim>\<open>dnsfilter.Filter\<close>
  are declared outside \<^verbatim>\<open>config.go\<close>. The fields are those the default value names; the
  identifier is an integer; the keys and their order are the spec's (id, enabled, url,
  name).
\<close>

record dnsfilter_Filter =
  ID :: int

record filter' =
  Filter :: dnsfilter_Filter
  Enabled :: bool
  URL :: string
  Name :: string

text \<open>\<^verbatim>\<open>dhcpd.ServerConfig\<close> is declared in another package: the type parameter \<open>'dhcp\<close>.\<close>

record ('tlsc, 'dhcp) configuration =
  ourConfigFilename :: string
  ourWorkingDir :: string
  firstRun :: bool
  BindHost :: string
  BindPort :: go_int
  AuthName :: string
  AuthPass :: string
  Language :: string
  DNS :: dnsConfig
  TLS :: "'tlsc tlsConfig"
  Filters :: "filter' list"
  UserRules :: "string list"
  DHCP :: 'dhcp
  logSettings :: logSettings
  SchemaVersion :: go_int

subsection \<open>What the file takes from outside\<close>

text \<open>
  Everything \<^verbatim>\<open>config.go\<close> uses and does not define: \<^verbatim>\<open>filepath.IsAbs\<close> and
  \<^verbatim>\<open>filepath.Join\<close>; the YAML library's parser and emitter; the fields, in order, of
  \<^verbatim>\<open>dnsforward.TLSConfig\<close> and its zero value; how \<^verbatim>\<open>dhcpd.ServerConfig\<close> is encoded
  and decoded, and its zero value; the constant \<^verbatim>\<open>currentSchemaVersion\<close>; the functions
  \<^verbatim>\<open>deduplicateFilters\<close> and \<^verbatim>\<open>updateUniqueFilterID\<close>; the path and the body of the
  user filter's file.
\<close>

record ('tlsc, 'dhcp) externals =
  filepath_IsAbs :: "string \<Rightarrow> bool"
  filepath_Join :: "string \<Rightarrow> string \<Rightarrow> string"
  yaml_parse :: "bytes \<Rightarrow> parsed"
  yaml_emit :: "yaml \<Rightarrow> error + bytes"
  TLSConfig_fields :: "'tlsc yfield list"
  TLSConfig_zero :: 'tlsc
  ServerConfig_enc :: "'dhcp \<Rightarrow> yaml"
  ServerConfig_dec :: "yaml \<Rightarrow> 'dhcp \<Rightarrow> 'dhcp decoded"
  ServerConfig_zero :: 'dhcp
  currentSchemaVersion :: go_int
  deduplicateFilters :: "('tlsc, 'dhcp) configuration \<Rightarrow> ('tlsc, 'dhcp) configuration"
  updateUniqueFilterID :: "filter' list \<Rightarrow> filter' list"
  userFilter_path :: "('tlsc, 'dhcp) configuration \<Rightarrow> string"
  userFilter_body :: "string list \<Rightarrow> bytes"

subsection \<open>Zero values\<close>

definition zero_logSettings :: logSettings where
  "zero_logSettings = \<lparr> LogFile = [], Verbose = False \<rparr>"

definition zero_FilteringConfig :: FilteringConfig where
  "zero_FilteringConfig =
     \<lparr> ProtectionEnabled = False, FilteringEnabled = False, BlockedResponseTTL = 0,
       QueryLogEnabled = False, Ratelimit = 0, RefuseAny = False, BootstrapDNS = [] \<rparr>"

definition zero_dnsConfig :: dnsConfig where
  "zero_dnsConfig =
     \<lparr> dnsConfig.BindHost = [], Port = 0, FilteringConfig = zero_FilteringConfig,
       UpstreamDNS = [] \<rparr>"

definition zero_tlsConfigSettings :: "('tlsc, 'dhcp) externals \<Rightarrow> 'tlsc tlsConfigSettings" where
  "zero_tlsConfigSettings X =
     \<lparr> tlsConfigSettings.Enabled = False, ServerName = [], ForceHTTPS = False, PortHTTPS = 0,
       PortDNSOverTLS = 0, TLSConfig = TLSConfig_zero X \<rparr>"

definition zero_tlsConfigStatus :: tlsConfigStatus where
  "zero_tlsConfigStatus =
     \<lparr> ValidChain = False, Subject = [], Issuer = [], NotBefore = 0, NotAfter = 0,
       DNSNames = [], StatusCertificate = [], ValidKey = False, KeyType = [], Warning = [],
       WarningValidation = [] \<rparr>"

definition zero_tlsConfig :: "('tlsc, 'dhcp) externals \<Rightarrow> 'tlsc tlsConfig" where
  "zero_tlsConfig X =
     \<lparr> tlsConfigSettings = zero_tlsConfigSettings X, tlsConfigStatus = zero_tlsConfigStatus \<rparr>"

definition zero_filter :: filter' where
  "zero_filter = \<lparr> Filter = \<lparr> ID = 0 \<rparr>, Enabled = False, URL = [], Name = [] \<rparr>"

definition zero_configuration :: "('tlsc, 'dhcp) externals \<Rightarrow> ('tlsc, 'dhcp) configuration" where
  "zero_configuration X =
     \<lparr> ourConfigFilename = [], ourWorkingDir = [], firstRun = False,
       BindHost = [], BindPort = 0, AuthName = [], AuthPass = [], Language = [],
       DNS = zero_dnsConfig, TLS = zero_tlsConfig X, Filters = [], UserRules = [],
       DHCP = ServerConfig_zero X, logSettings = zero_logSettings, SchemaVersion = 0 \<rparr>"

subsection \<open>The structs as the YAML library sees them\<close>

text \<open>\<^verbatim>\<open>type logSettings struct\<close>, lines 23 to 26.\<close>

definition logSettings_fields :: "logSettings yfield list" where
  "logSettings_fields =
     [field ''log_file'' enc_string dec_string LogFile (\<lambda>v l. l\<lparr>LogFile := v\<rparr>),
      field ''verbose'' enc_bool dec_bool Verbose (\<lambda>v l. l\<lparr>Verbose := v\<rparr>)]"

definition FilteringConfig_fields :: "FilteringConfig yfield list" where
  "FilteringConfig_fields =
     [field ''protection_enabled'' enc_bool dec_bool
        ProtectionEnabled (\<lambda>v f. f\<lparr>ProtectionEnabled := v\<rparr>),
      field ''filtering_enabled'' enc_bool dec_bool
        FilteringEnabled (\<lambda>v f. f\<lparr>FilteringEnabled := v\<rparr>),
      field ''blocked_response_ttl'' enc_int dec_int
        BlockedResponseTTL (\<lambda>v f. f\<lparr>BlockedResponseTTL := v\<rparr>),
      field ''query_log_enabled'' enc_bool dec_bool
        QueryLogEnabled (\<lambda>v f. f\<lparr>QueryLogEnabled := v\<rparr>),
      field ''ratelimit'' enc_int dec_int
        Ratelimit (\<lambda>v f. f\<lparr>Ratelimit := v\<rparr>),
      field ''refuse_any'' enc_bool dec_bool
        RefuseAny (\<lambda>v f. f\<lparr>RefuseAny := v\<rparr>),
      field ''bootstrap_dns'' enc_string dec_string
        BootstrapDNS (\<lambda>v f. f\<lparr>BootstrapDNS := v\<rparr>)]"

text \<open>\<^verbatim>\<open>type dnsConfig struct\<close>, lines 54 to 61.\<close>

definition dnsConfig_fields :: "dnsConfig yfield list" where
  "dnsConfig_fields =
     [field ''bind_host'' enc_string dec_string
        dnsConfig.BindHost (\<lambda>v d. d\<lparr>dnsConfig.BindHost := v\<rparr>),
      field ''port'' enc_int dec_int Port (\<lambda>v d. d\<lparr>Port := v\<rparr>)]
     @ inline FilteringConfig (\<lambda>v d. d\<lparr>FilteringConfig := v\<rparr>) FilteringConfig_fields
     @ [field ''upstream_dns'' (enc_seq enc_string) (dec_seq dec_string [])
          UpstreamDNS (\<lambda>v d. d\<lparr>UpstreamDNS := v\<rparr>)]"

text \<open>\<^verbatim>\<open>type tlsConfigSettings struct\<close>, lines 65 to 73. The first tag reads \<^verbatim>\<open>yaml:"enaled"\<close>.\<close>

definition tlsConfigSettings_fields ::
  "('tlsc, 'dhcp) externals \<Rightarrow> 'tlsc tlsConfigSettings yfield list" where
  "tlsConfigSettings_fields X =
     [field ''enaled'' enc_bool dec_bool
        tlsConfigSettings.Enabled (\<lambda>v t. t\<lparr>tlsConfigSettings.Enabled := v\<rparr>),
      field ''server_name'' enc_string dec_string ServerName (\<lambda>v t. t\<lparr>ServerName := v\<rparr>),
      field ''force_https'' enc_bool dec_bool ForceHTTPS (\<lambda>v t. t\<lparr>ForceHTTPS := v\<rparr>),
      field ''port_https'' enc_int dec_int PortHTTPS (\<lambda>v t. t\<lparr>PortHTTPS := v\<rparr>),
      field ''port_dns_over_tls'' enc_int dec_int
        PortDNSOverTLS (\<lambda>v t. t\<lparr>PortDNSOverTLS := v\<rparr>)]
     @ inline TLSConfig (\<lambda>v t. t\<lparr>TLSConfig := v\<rparr>) (TLSConfig_fields X)"

text \<open>
  \<^verbatim>\<open>type tlsConfig struct\<close>, lines 96 to 99: the settings are inline, the status is
  tagged \<^verbatim>\<open>yaml:"-"\<close> and has no entry.
\<close>

definition tlsConfig_fields :: "('tlsc, 'dhcp) externals \<Rightarrow> 'tlsc tlsConfig yfield list" where
  "tlsConfig_fields X =
     inline tlsConfigSettings (\<lambda>v t. t\<lparr>tlsConfigSettings := v\<rparr>) (tlsConfigSettings_fields X)"

definition enc_ID :: "int \<Rightarrow> yaml" where
  "enc_ID i = YInt (FormatInt i) i"

fun dec_ID :: "yaml \<Rightarrow> int \<Rightarrow> int decoded" where
  "dec_ID YNull cur = Decoded 0 []"
| "dec_ID (YInt raw i) cur = Decoded i []"
| "dec_ID y cur = Failed [CannotUnmarshalInto ''int'']"

definition filter_fields :: "filter' yfield list" where
  "filter_fields =
     [field ''id'' enc_ID dec_ID (\<lambda>f. ID (Filter f)) (\<lambda>v f. f\<lparr>Filter := (Filter f)\<lparr>ID := v\<rparr>\<rparr>),
      field ''enabled'' enc_bool dec_bool Enabled (\<lambda>v f. f\<lparr>Enabled := v\<rparr>),
      field ''url'' enc_string dec_string URL (\<lambda>v f. f\<lparr>URL := v\<rparr>),
      field ''name'' enc_string dec_string Name (\<lambda>v f. f\<lparr>Name := v\<rparr>)]"

text \<open>
  \<^verbatim>\<open>type configuration struct\<close>, lines 30 to 51. The three unexported fields are not
  seen by the library, \<^verbatim>\<open>logSettings\<close> is inline, the mutex is tagged \<^verbatim>\<open>yaml:"-"\<close>.
\<close>

definition configuration_fields ::
  "('tlsc, 'dhcp) externals \<Rightarrow> ('tlsc, 'dhcp) configuration yfield list" where
  "configuration_fields X =
     [field ''bind_host'' enc_string dec_string BindHost (\<lambda>v c. c\<lparr>BindHost := v\<rparr>),
      field ''bind_port'' enc_int dec_int BindPort (\<lambda>v c. c\<lparr>BindPort := v\<rparr>),
      field ''auth_name'' enc_string dec_string AuthName (\<lambda>v c. c\<lparr>AuthName := v\<rparr>),
      field ''auth_pass'' enc_string dec_string AuthPass (\<lambda>v c. c\<lparr>AuthPass := v\<rparr>),
      field ''language'' enc_string dec_string Language (\<lambda>v c. c\<lparr>Language := v\<rparr>),
      field ''dns'' (enc_struct dnsConfig_fields) (dec_struct dnsConfig_fields zero_dnsConfig)
        DNS (\<lambda>v c. c\<lparr>DNS := v\<rparr>),
      field ''tls'' (enc_struct (tlsConfig_fields X))
        (dec_struct (tlsConfig_fields X) (zero_tlsConfig X))
        TLS (\<lambda>v c. c\<lparr>TLS := v\<rparr>),
      field ''filters'' (enc_seq (enc_struct filter_fields))
        (dec_seq (dec_struct filter_fields zero_filter) zero_filter)
        Filters (\<lambda>v c. c\<lparr>Filters := v\<rparr>),
      field ''user_rules'' (enc_seq enc_string) (dec_seq dec_string [])
        UserRules (\<lambda>v c. c\<lparr>UserRules := v\<rparr>),
      field ''dhcp'' (ServerConfig_enc X) (ServerConfig_dec X) DHCP (\<lambda>v c. c\<lparr>DHCP := v\<rparr>)]
     @ inline logSettings (\<lambda>v c. c\<lparr>logSettings := v\<rparr>) logSettings_fields
     @ [field ''schema_version'' enc_int dec_int SchemaVersion (\<lambda>v c. c\<lparr>SchemaVersion := v\<rparr>)]"

subsubsection \<open>Marshal and Unmarshal\<close>

text \<open>
  \<^verbatim>\<open>yaml.Unmarshal(in, out)\<close>: the library first parses the whole document into a node
  tree, and a syntax error ends the call there; only then is the tree decoded into \<open>out\<close>.
  Type errors do not stop the decoding: they are collected and returned as one
  \<^verbatim>\<open>yaml.TypeError\<close> at the end, with \<open>out\<close> holding whatever did decode.
\<close>

definition yaml_Unmarshal ::
  "('tlsc, 'dhcp) externals \<Rightarrow> (yaml \<Rightarrow> 'a \<Rightarrow> 'a decoded) \<Rightarrow> bytes \<Rightarrow> 'a \<Rightarrow> 'a \<times> error option" where
  "yaml_Unmarshal X dec input out =
     (case yaml_parse X input of
        SyntaxError msg \<Rightarrow> (out, Some (YamlSyntaxError msg))
      | NoDocument \<Rightarrow> (out, None)
      | Document n \<Rightarrow>
          (case dec n out of
             Decoded v es \<Rightarrow> (v, if es = [] then None else Some (YamlTypeError es))
           | Failed es \<Rightarrow> (out, if es = [] then None else Some (YamlTypeError es))))"

definition yaml_Marshal ::
  "('tlsc, 'dhcp) externals \<Rightarrow> ('a \<Rightarrow> yaml) \<Rightarrow> 'a \<Rightarrow> error + bytes" where
  "yaml_Marshal X enc v = yaml_emit X (enc v)"

text \<open>The node tree that \<^verbatim>\<open>yaml.Marshal(&config)\<close> hands to the emitter.\<close>

definition marshal_configuration ::
  "('tlsc, 'dhcp) externals \<Rightarrow> ('tlsc, 'dhcp) configuration \<Rightarrow> yaml" where
  "marshal_configuration X c = enc_struct (configuration_fields X) c"

definition unmarshal_configuration ::
  "('tlsc, 'dhcp) externals \<Rightarrow> yaml \<Rightarrow> ('tlsc, 'dhcp) configuration \<Rightarrow>
     ('tlsc, 'dhcp) configuration decoded" where
  "unmarshal_configuration X n c = dec_struct (configuration_fields X) (zero_configuration X) n c"

subsection \<open>The built-in defaults\<close>

definition defaultDNS :: "string list" where
  "defaultDNS = [''tls://1.1.1.1'', ''tls://1.0.0.1'']"

text \<open>\<^verbatim>\<open>var config = configuration{...}\<close>, lines 102 to 133; fields not named are zero.\<close>

definition config :: "('tlsc, 'dhcp) externals \<Rightarrow> ('tlsc, 'dhcp) configuration" where
  "config X =
     \<lparr> ourConfigFilename = ''AdGuardHome.yaml'',
       ourWorkingDir = [],
       firstRun = False,
       BindHost = ''0.0.0.0'',
       BindPort = 3000,
       AuthName = [],
       AuthPass = [],
       Language = [],
       DNS = \<lparr> dnsConfig.BindHost = ''0.0.0.0'',
               Port = 53,
               FilteringConfig =
                 \<lparr> ProtectionEnabled = True,
                   FilteringEnabled = True,
                   BlockedResponseTTL = 10,
                   QueryLogEnabled = True,
                   Ratelimit = 20,
                   RefuseAny = True,
                   BootstrapDNS = ''8.8.8.8:53'' \<rparr>,
               UpstreamDNS = defaultDNS \<rparr>,
       TLS = \<lparr> tlsConfigSettings =
                 (zero_tlsConfigSettings X)\<lparr>PortHTTPS := 443, PortDNSOverTLS := 853\<rparr>,
               tlsConfigStatus = zero_tlsConfigStatus \<rparr>,
       Filters =
         [\<lparr> Filter = \<lparr> ID = 1 \<rparr>, Enabled = True,
            URL = ''https://adguardteam.github.io/AdGuardSDNSFilter/Filters/filter.txt'',
            Name = ''AdGuard Simplified Domain Names filter'' \<rparr>,
          \<lparr> Filter = \<lparr> ID = 2 \<rparr>, Enabled = False,
            URL = ''https://adaway.org/hosts.txt'',
            Name = ''AdAway'' \<rparr>,
          \<lparr> Filter = \<lparr> ID = 3 \<rparr>, Enabled = False,
            URL = ''https://hosts-file.net/ad_servers.txt'',
            Name = ''hpHosts - Ad and Tracking servers only'' \<rparr>,
          \<lparr> Filter = \<lparr> ID = 4 \<rparr>, Enabled = False,
            URL = ''http://www.malwaredomainlist.com/hostslist/hosts.txt'',
            Name = ''MalwareDomainList.com Hosts List'' \<rparr>],
       UserRules = [],
       DHCP = ServerConfig_zero X,
       logSettings = zero_logSettings,
       SchemaVersion = currentSchemaVersion X \<rparr>"

subsection \<open>The file system\<close>

text \<open>
  A path is absent, or it exists and \<^verbatim>\<open>ioutil.ReadFile\<close> either returns its content or
  fails. \<open>read_only\<close> says where a write fails. \<open>calls\<close> lists the write operations that
  were started, in order, whether they failed or not.
\<close>

datatype fnode = Content bytes | Unreadable

datatype call = SafeWriteFile string bytes | UserFilterSave

record world =
  files :: "string \<Rightarrow> fnode option"
  read_only :: "string \<Rightarrow> bool"
  calls :: "call list"

definition write_file :: "string \<Rightarrow> bytes \<Rightarrow> world \<Rightarrow> error option \<times> world" where
  "write_file path data w =
     (if read_only w path then (Some (WriteFileError path), w)
      else (None, w\<lparr>files := (files w)(path \<mapsto> Content data)\<rparr>))"

text \<open>
  Modelled from the spec: \<^verbatim>\<open>safeWriteFile\<close> is defined outside \<^verbatim>\<open>config.go\<close>. The spec
  has it as an atomic file-write primitive, (path, bytes) to success or error, that
  replaces the file's content as a whole or leaves it as it was.
\<close>

definition safeWriteFile :: "string \<Rightarrow> bytes \<Rightarrow> world \<Rightarrow> error option \<times> world" where
  "safeWriteFile path data w = write_file path data (w\<lparr>calls := calls w @ [SafeWriteFile path data]\<rparr>)"

text \<open>
  Modelled from the spec: \<^verbatim>\<open>userFilter()\<close> and its \<^verbatim>\<open>save()\<close> are defined outside
  \<^verbatim>\<open>config.go\<close>. The spec has \<open>save\<close> persist the user-authored filter-rule text to its
  own file.
\<close>

definition userFilter_save ::
  "('tlsc, 'dhcp) externals \<Rightarrow> ('tlsc, 'dhcp) configuration \<Rightarrow> world \<Rightarrow> error option \<times> world" where
  "userFilter_save X c w =
     write_file (userFilter_path X c) (userFilter_body X (UserRules c))
       (w\<lparr>calls := calls w @ [UserFilterSave]\<rparr>)"

subsection \<open>The functions of config.go\<close>

text \<open>\<^verbatim>\<open>getConfigFilename\<close>, lines 136 to 142.\<close>

definition getConfigFilename :: "('tlsc, 'dhcp) externals \<Rightarrow> ('tlsc, 'dhcp) configuration \<Rightarrow> string" where
  "getConfigFilename X c =
     (let configFile = ourConfigFilename c in
      if \<not> filepath_IsAbs X configFile
      then filepath_Join X (ourWorkingDir c) (ourConfigFilename c)
      else configFile)"

text \<open>
  \<^verbatim>\<open>readConfigFile\<close>, lines 187 to 194: \<open>Inr None\<close> is the pair \<^verbatim>\<open>(nil, nil)\<close> of an
  absent file.
\<close>

definition readConfigFile ::
  "('tlsc, 'dhcp) externals \<Rightarrow> ('tlsc, 'dhcp) configuration \<Rightarrow> world \<Rightarrow> error + bytes option" where
  "readConfigFile X c w =
     (let configFile = getConfigFilename X c in
      case files w configFile of
        None \<Rightarrow> Inr None
      | Some (Content data) \<Rightarrow> Inr (Some data)
      | Some Unreadable \<Rightarrow> Inl (ReadFileError configFile))"

text \<open>\<^verbatim>\<open>getLogSettings\<close>, lines 146 to 157.\<close>

definition getLogSettings ::
  "('tlsc, 'dhcp) externals \<Rightarrow> ('tlsc, 'dhcp) configuration \<Rightarrow> world \<Rightarrow> logSettings" where
  "getLogSettings X c w =
     (let l = zero_logSettings in
      case readConfigFile X c w of
        Inl err \<Rightarrow> l
      | Inr None \<Rightarrow> l
      | Inr (Some yamlFile) \<Rightarrow>
          (case yaml_Unmarshal X (dec_struct logSettings_fields zero_logSettings) yamlFile l of
             (l', err) \<Rightarrow> l'))"

text \<open>\<^verbatim>\<open>parseConfig\<close>, lines 160 to 184: the error returned and the configuration left.\<close>

definition parseConfig ::
  "('tlsc, 'dhcp) externals \<Rightarrow> ('tlsc, 'dhcp) configuration \<Rightarrow> world \<Rightarrow>
     error option \<times> ('tlsc, 'dhcp) configuration" where
  "parseConfig X c w =
     (case readConfigFile X c w of
        Inl err \<Rightarrow> (Some err, c)
      | Inr None \<Rightarrow> (None, c)
      | Inr (Some yamlFile) \<Rightarrow>
          (case yaml_Unmarshal X (unmarshal_configuration X) yamlFile c of
             (c1, Some err) \<Rightarrow> (Some err, c1)
           | (c1, None) \<Rightarrow>
               (let c2 = deduplicateFilters X c1 in
                (None, c2\<lparr>Filters := updateUniqueFilterID X (Filters c2)\<rparr>))))"

text \<open>
  \<^verbatim>\<open>configuration.write\<close>, lines 197 to 218. The method reads the global \<^verbatim>\<open>config\<close>,
  which is also its only receiver.
\<close>

definition configuration_write ::
  "('tlsc, 'dhcp) externals \<Rightarrow> ('tlsc, 'dhcp) configuration \<Rightarrow> world \<Rightarrow> error option \<times> world" where
  "configuration_write X c w =
     (if firstRun c then (None, w)
      else
        (let configFile = getConfigFilename X c in
         case yaml_Marshal X (marshal_configuration X) c of
           Inl err \<Rightarrow> (Some err, w)
         | Inr yamlText \<Rightarrow>
             (case safeWriteFile configFile yamlText w of
                (Some err, w') \<Rightarrow> (Some err, w')
              | (None, w') \<Rightarrow> (None, w'))))"

text \<open>\<^verbatim>\<open>writeAllConfigs\<close>, lines 220 to 235.\<close>

definition writeAllConfigs ::
  "('tlsc, 'dhcp) externals \<Rightarrow> ('tlsc, 'dhcp) configuration \<Rightarrow> world \<Rightarrow> error option \<times> world" where
  "writeAllConfigs X c w =
     (case configuration_write X c w of
        (Some err, w1) \<Rightarrow> (Some err, w1)
      | (None, w1) \<Rightarrow>
          (case userFilter_save X c w1 of
             (Some err, w2) \<Rightarrow> (Some err, w2)
           | (None, w2) \<Rightarrow> (None, w2)))"

subsection \<open>The filter normalizer\<close>

text \<open>
  Modelled from the spec: \<^verbatim>\<open>deduplicateFilters\<close> is defined outside \<^verbatim>\<open>config.go\<close>.
  The spec has it remove duplicates over the loaded sequence in its original order,
  keeping the first occurrence, with equality of the source URL as the duplicate key.
\<close>

fun dedup_urls :: "string list \<Rightarrow> filter' list \<Rightarrow> filter' list" where
  "dedup_urls seen [] = []"
| "dedup_urls seen (f # fs) =
     (if URL f \<in> set seen then dedup_urls seen fs else f # dedup_urls (URL f # seen) fs)"

definition spec_deduplicateFilters ::
  "('tlsc, 'dhcp) configuration \<Rightarrow> ('tlsc, 'dhcp) configuration" where
  "spec_deduplicateFilters c = c\<lparr>Filters := dedup_urls [] (Filters c)\<rparr>"

text \<open>
  Modelled from the spec: \<^verbatim>\<open>updateUniqueFilterID\<close> is defined outside \<^verbatim>\<open>config.go\<close>.
  The spec has identifiers assigned in first-seen order, starting from 1 or from the next
  free value, whenever a filter lacks one or collides with another. A filter lacks an
  identifier when it is not positive; it collides when an earlier filter holds the same
  one; the next free value is one more than the largest identifier in the sequence (1 when
  there is none), and one more after each assignment.
\<close>

fun max_ID :: "filter' list \<Rightarrow> int" where
  "max_ID [] = 0"
| "max_ID (f # fs) = max (ID (Filter f)) (max_ID fs)"

fun assign_IDs :: "int \<Rightarrow> int list \<Rightarrow> filter' list \<Rightarrow> filter' list" where
  "assign_IDs free seen [] = []"
| "assign_IDs free seen (f # fs) =
     (if ID (Filter f) \<le> 0 \<or> ID (Filter f) \<in> set seen
      then f\<lparr>Filter := (Filter f)\<lparr>ID := free\<rparr>\<rparr> # assign_IDs (free + 1) (free # seen) fs
      else f # assign_IDs free (ID (Filter f) # seen) fs)"

definition spec_updateUniqueFilterID :: "filter' list \<Rightarrow> filter' list" where
  "spec_updateUniqueFilterID fs = assign_IDs (max_ID fs + 1) [] fs"

text \<open>The two steps in the order of lines 179 and 181 of \<^verbatim>\<open>parseConfig\<close>.\<close>

definition normalize_filters :: "filter' list \<Rightarrow> filter' list" where
  "normalize_filters fs = spec_updateUniqueFilterID (dedup_urls [] fs)"

text \<open>The identifier of a filter.\<close>

abbreviation fid :: "filter' \<Rightarrow> int" where
  "fid f \<equiv> ID (Filter f)"

subsection \<open>A sample environment\<close>

text \<open>
  Concrete values for what the file takes from outside, used to run the model: TLS
  certificate settings are a pair of strings (chain, key), the DHCP settings a single
  flag. The parser knows the sample files below and takes anything else for a syntax
  error; the emitter writes one fixed text, whatever the document.
\<close>

definition sample_TLSConfig_fields :: "(string \<times> string) yfield list" where
  "sample_TLSConfig_fields =
     [field ''certificate_chain'' enc_string dec_string fst (\<lambda>v p. (v, snd p)),
      field ''private_key'' enc_string dec_string snd (\<lambda>v p. (fst p, v))]"

definition sample_ServerConfig_fields :: "bool yfield list" where
  "sample_ServerConfig_fields = [field ''enabled'' enc_bool dec_bool (\<lambda>b. b) (\<lambda>v b. v)]"

definition sample_log_file :: bytes where
  "sample_log_file = ''log_file: agh.log'' @ [CHR 0x0A] @ ''verbose: maybe''"

definition sample_log_doc :: yaml where
  "sample_log_doc = YMap [(''log_file'', YStr ''agh.log''), (''verbose'', YStr ''maybe'')]"

definition sample_bad_file :: bytes where
  "sample_bad_file = ''bind_port: [3000''"

definition sample_config_file :: bytes where
  "sample_config_file = ''# the default configuration''"

definition sample_filters :: "filter' list" where
  "sample_filters =
     [\<lparr> Filter = \<lparr> ID = 0 \<rparr>, Enabled = True, URL = ''https://a.example/list.txt'', Name = ''A'' \<rparr>,
      \<lparr> Filter = \<lparr> ID = 2 \<rparr>, Enabled = True, URL = ''https://b.example/list.txt'', Name = ''B'' \<rparr>,
      \<lparr> Filter = \<lparr> ID = 5 \<rparr>, Enabled = False, URL = ''https://b.example/list.txt'', Name = ''B2'' \<rparr>,
      \<lparr> Filter = \<lparr> ID = 2 \<rparr>, Enabled = False, URL = ''https://c.example/list.txt'', Name = ''C'' \<rparr>]"

definition sample_filters_file :: bytes where
  "sample_filters_file =
     ''filters: ['' @
     ''{id: 0, enabled: true, url: https://a.example/list.txt, name: A}, '' @
     ''{id: 2, enabled: true, url: https://b.example/list.txt, name: B}, '' @
     ''{id: 5, enabled: false, url: https://b.example/list.txt, name: B2}, '' @
     ''{id: 2, enabled: false, url: https://c.example/list.txt, name: C}]''"

definition sample_filters_doc :: yaml where
  "sample_filters_doc = YMap [(''filters'', enc_seq (enc_struct filter_fields) sample_filters)]"

definition X0 :: "(string \<times> string, bool) externals" where
  "X0 =
     \<lparr> filepath_IsAbs = (\<lambda>p. case p of [] \<Rightarrow> False | ch # _ \<Rightarrow> ch = CHR ''/''),
       filepath_Join = (\<lambda>d f. if d = [] then f else d @ ''/'' @ f),
       yaml_parse = (\<lambda>bs. if bs = [] then NoDocument
                           else if bs = sample_log_file then Document sample_log_doc
                           else if bs = sample_filters_file then Document sample_filters_doc
                           else SyntaxError ''did not find expected node content''),
       yaml_emit = (\<lambda>y. Inr sample_config_file),
       TLSConfig_fields = sample_TLSConfig_fields,
       TLSConfig_zero = ([], []),
       ServerConfig_enc = enc_struct sample_ServerConfig_fields,
       ServerConfig_dec = dec_struct sample_ServerConfig_fields False,
       ServerConfig_zero = False,
       currentSchemaVersion = 3,
       deduplicateFilters = spec_deduplicateFilters,
       updateUniqueFilterID = spec_updateUniqueFilterID,
       userFilter_path = (\<lambda>c. ''data/filters/0.txt''),
       userFilter_body = concat \<rparr>"

text \<open>A file system with nothing in it, and one where nothing can be written.\<close>

definition empty_world :: world where
  "empty_world = \<lparr> files = (\<lambda>p. None), read_only = (\<lambda>p. False), calls = [] \<rparr>"

definition read_only_world :: world where
  "read_only_world = \<lparr> files = (\<lambda>p. None), read_only = (\<lambda>p. True), calls = [] \<rparr>"

text \<open>A file system whose configuration file is not YAML.\<close>

definition bad_file_world :: world where
  "bad_file_world =
     \<lparr> files = (\<lambda>p. if p = ''AdGuardHome.yaml'' then Some (Content sample_bad_file) else None),
       read_only = (\<lambda>p. False), calls = [] \<rparr>"

text \<open>
  A file system whose configuration file cannot be read, and one whose configuration
  file gives the log file as a string and the verbosity as something that is not a
  boolean.
\<close>

definition unreadable_world :: world where
  "unreadable_world =
     \<lparr> files = (\<lambda>p. if p = ''AdGuardHome.yaml'' then Some Unreadable else None),
       read_only = (\<lambda>p. False), calls = [] \<rparr>"

definition log_file_world :: world where
  "log_file_world =
     \<lparr> files = (\<lambda>p. if p = ''AdGuardHome.yaml'' then Some (Content sample_log_file) else None),
       read_only = (\<lambda>p. False), calls = [] \<rparr>"

text \<open>A file system whose configuration file lists the four sample filters.\<close>

definition filters_world :: world where
  "filters_world =
     \<lparr> files = (\<lambda>p. if p = ''AdGuardHome.yaml'' then Some (Content sample_filters_file) else None),
       read_only = (\<lambda>p. False), calls = [] \<rparr>"

subsubsection \<open>A text format for documents\<close>

text \<open>
  A second sample environment has an emitter and a parser that are functions of the whole
  document: a text format of its own, not YAML's, in which every tree can be written
  and read back. A number is written in unary, a string as its length and its
  characters, a node as one character for its kind followed by its parts, a sequence
  and a mapping between brackets.
\<close>

fun render_nat :: "nat \<Rightarrow> string" where
  "render_nat 0 = ''0''"
| "render_nat (Suc n) = CHR ''1'' # render_nat n"

fun parse_nat :: "string \<Rightarrow> (nat \<times> string) option" where
  "parse_nat [] = None"
| "parse_nat (ch # cs) =
     (if ch = CHR ''0'' then Some (0, cs)
      else if ch = CHR ''1'' then (case parse_nat cs of None \<Rightarrow> None | Some (n, r) \<Rightarrow> Some (Suc n, r))
      else None)"

definition render_str :: "string \<Rightarrow> string" where
  "render_str s = render_nat (length s) @ s"

definition parse_str :: "string \<Rightarrow> (string \<times> string) option" where
  "parse_str cs =
     (case parse_nat cs of
        None \<Rightarrow> None
      | Some (n, r) \<Rightarrow> if n \<le> length r then Some (take n r, drop n r) else None)"

definition render_int :: "int \<Rightarrow> string" where
  "render_int i = (if i < 0 then CHR ''-'' else CHR ''+'') # render_nat (nat \<bar>i\<bar>)"

fun parse_int :: "string \<Rightarrow> (int \<times> string) option" where
  "parse_int [] = None"
| "parse_int (ch # cs) =
     (if ch = CHR ''+'' then (case parse_nat cs of None \<Rightarrow> None | Some (n, r) \<Rightarrow> Some (int n, r))
      else if ch = CHR ''-'' then (case parse_nat cs of None \<Rightarrow> None | Some (n, r) \<Rightarrow> Some (- int n, r))
      else None)"

primrec render :: "yaml \<Rightarrow> string" where
  "render YNull = ''~''"
| "render (YBool raw b) = (if b then CHR ''T'' else CHR ''F'') # render_str raw"
| "render (YInt raw i) = CHR ''I'' # render_int i @ render_str raw"
| "render (YStr s) = CHR ''S'' # render_str s"
| "render (YSeq ys) = CHR ''['' # concat (map render ys) @ '']''"
| "render (YMap kvs) =
     CHR ''{'' # concat (map (\<lambda>kv. render_str (fst kv) @ snd kv) (map (map_prod (\<lambda>k. k) render) kvs))
       @ ''}''"

text \<open>
  The parser takes a bound on the nesting and length of what it reads (the length of
  the text is enough) and returns the node read and the rest of the text.
\<close>

fun parse_node :: "nat \<Rightarrow> string \<Rightarrow> (yaml \<times> string) option"
  and parse_elems :: "nat \<Rightarrow> string \<Rightarrow> (yaml list \<times> string) option"
  and parse_entries :: "nat \<Rightarrow> string \<Rightarrow> ((string \<times> yaml) list \<times> string) option" where
  "parse_node 0 cs = None"
| "parse_node (Suc n) [] = None"
| "parse_node (Suc n) (ch # cs) =
     (if ch = CHR ''~'' then Some (YNull, cs)
      else if ch = CHR ''T'' then
        (case parse_str cs of None \<Rightarrow> None | Some (raw, r) \<Rightarrow> Some (YBool raw True, r))
      else if ch = CHR ''F'' then
        (case parse_str cs of None \<Rightarrow> None | Some (raw, r) \<Rightarrow> Some (YBool raw False, r))
      else if ch = CHR ''I'' then
        (case parse_int cs of
           None \<Rightarrow> None
         | Some (i, r) \<Rightarrow>
             (case parse_str r of None \<Rightarrow> None | Some (raw, r') \<Rightarrow> Some (YInt raw i, r')))
      else if ch = CHR ''S'' then
        (case parse_str cs of None \<Rightarrow> None | Some (s, r) \<Rightarrow> Some (YStr s, r))
      else if ch = CHR ''['' then
        (case parse_elems n cs of None \<Rightarrow> None | Some (ys, r) \<Rightarrow> Some (YSeq ys, r))
      else if ch = CHR ''{'' then
        (case parse_entries n cs of None \<Rightarrow> None | Some (kvs, r) \<Rightarrow> Some (YMap kvs, r))
      else None)"
| "parse_elems 0 cs = None"
| "parse_elems (Suc n) [] = None"
| "parse_elems (Suc n) (ch # cs) =
     (if ch = CHR '']'' then Some ([], cs)
      else
        (case parse_node n (ch # cs) of
           None \<Rightarrow> None
         | Some (y, r) \<Rightarrow>
             (case parse_elems n r of None \<Rightarrow> None | Some (ys, r') \<Rightarrow> Some (y # ys, r'))))"
| "parse_entries 0 cs = None"
| "parse_entries (Suc n) [] = None"
| "parse_entries (Suc n) (ch # cs) =
     (if ch = CHR ''}'' then Some ([], cs)
      else
        (case parse_str (ch # cs) of
           None \<Rightarrow> None
         | Some (k, r) \<Rightarrow>
             (case parse_node n r of
                None \<Rightarrow> None
              | Some (v, r') \<Rightarrow>
                  (case parse_entries n r' of
                     None \<Rightarrow> None
                   | Some (kvs, r'') \<Rightarrow> Some ((k, v) # kvs, r'')))))"

definition parse_rendered :: "bytes \<Rightarrow> parsed" where
  "parse_rendered cs =
     (if cs = [] then NoDocument
      else
        (case parse_node (Suc (length cs)) cs of
           Some (y, []) \<Rightarrow> Document y
         | _ \<Rightarrow> SyntaxError ''did not find expected node content''))"

text \<open>The sample environment with this emitter and this parser.\<close>

definition X1 :: "(string \<times> string, bool) externals" where
  "X1 = X0\<lparr>yaml_parse := parse_rendered, yaml_emit := (\<lambda>y. Inr (render y))\<rparr>"

text \<open>A configuration that differs from the default in most of its fields.\<close>

definition sample_configuration :: "(string \<times> string, bool) configuration" where
  "sample_configuration =
     (config X1)
       \<lparr> BindHost := ''192.168.1.1'', BindPort := 8080, AuthName := ''admin'',
         AuthPass := ''secret'', Language := ''en'',
         DNS := (DNS (config X1))\<lparr>Port := 5353, UpstreamDNS := [''8.8.8.8'']\<rparr>,
         TLS := (TLS (config X1))
           \<lparr>tlsConfigSettings :=
              (tlsConfigSettings (TLS (config X1)))
                \<lparr>tlsConfigSettings.Enabled := True, ServerName := ''dns.example'',
                  TLSConfig := (''chain'', ''key'')\<rparr>,
            tlsConfigStatus := zero_tlsConfigStatus\<lparr>ValidChain := True, Warning := ''w''\<rparr>\<rparr>,
         Filters := sample_filters, UserRules := [''||ads.example^''], DHCP := True,
         logSettings := \<lparr> LogFile = ''syslog'', Verbose = True \<rparr> \<rparr>"

section \<open>Properties\<close>

subsection \<open>Decoding what was encoded\<close>

lemma dec_string_enc: "dec_string (enc_string s) cur = Decoded s []"
  by (simp add: enc_string_def)

lemma dec_bool_enc: "dec_bool (enc_bool b) cur = Decoded b []"
  by (simp add: enc_bool_def)


lemma dec_ID_enc: "dec_ID (enc_ID i) cur = Decoded i []"
  by (simp add: enc_ID_def)

lemma dec_elems_enc:
  assumes "\<And>x. dec (enc x) zero = Decoded x []"
  shows "dec_elems dec zero (map enc xs) = (xs, [])"
  by (induction xs) (simp_all add: assms)

lemma dec_seq_enc:
  assumes "\<And>x. dec (enc x) zero = Decoded x []"
  shows "dec_seq dec zero (enc_seq enc xs) cur = Decoded xs []"
  by (simp add: enc_seq_def dec_elems_enc [of dec enc zero, OF assms])

lemma dec_filter_enc:
  "dec_struct filter_fields zero_filter (enc_struct filter_fields f) cur = Decoded f []"
  by (cases f, cases "Filter f")
     (simp add: enc_struct_def filter_fields_def field_def mapping_step_def
        dec_string_enc dec_bool_enc dec_ID_enc)













subsection \<open>Loading\<close>

lemma readConfigFile_absent:
  "files w (getConfigFilename X c) = None \<Longrightarrow> readConfigFile X c w = Inr None"
  by (simp add: readConfigFile_def)

lemma getConfigFilename_normalizer [simp]:
  "getConfigFilename (X\<lparr>deduplicateFilters := d, updateUniqueFilterID := u\<rparr>) c =
   getConfigFilename X c"
  by (simp add: getConfigFilename_def Let_def)

text \<open>
  C1. When the configuration file is present and its bytes are not parseable YAML,
  \<^verbatim>\<open>parseConfig\<close> returns the parser's error and every field of the configuration is
  what it was before the call.
\<close>

theorem C1_syntax_error_leaves_config:
  assumes "files w (getConfigFilename X c) = Some (Content input)"
    and "yaml_parse X input = SyntaxError msg"
  shows "parseConfig X c w = (Some (YamlSyntaxError msg), c)"
  using assms by (simp add: parseConfig_def readConfigFile_def yaml_Unmarshal_def)

theorem C1_witness:
  "files bad_file_world (getConfigFilename X0 (config X0)) = Some (Content sample_bad_file) \<and>
   yaml_parse X0 sample_bad_file = SyntaxError ''did not find expected node content'' \<and>
   parseConfig X0 (config X0) bad_file_world =
     (Some (YamlSyntaxError ''did not find expected node content''), config X0)"
proof -
  have f: "files bad_file_world (getConfigFilename X0 (config X0)) = Some (Content sample_bad_file)"
    by (simp add: bad_file_world_def getConfigFilename_def X0_def config_def)
  have p: "yaml_parse X0 sample_bad_file = SyntaxError ''did not find expected node content''"
    by (simp add: X0_def sample_bad_file_def sample_log_file_def sample_filters_file_def)
  from f p C1_syntax_error_leaves_config [OF f p] show ?thesis by simp
qed

text \<open>
  C6. When the resolved configuration path does not exist, \<^verbatim>\<open>readConfigFile\<close> returns
  no bytes and no error, \<^verbatim>\<open>parseConfig\<close> returns no error and leaves the configuration
  as it was; the built-in default has bind port 3000, DNS port 53 and the upstream
  resolvers tls://1.1.1.1 and tls://1.0.0.1.
\<close>

theorem C6_absent_file_keeps_defaults:
  assumes "files w (getConfigFilename X c) = None"
  shows "readConfigFile X c w = Inr None \<and>
         parseConfig X c w = (None, c) \<and>
         BindPort (config X) = 3000 \<and>
         Port (DNS (config X)) = 53 \<and>
         UpstreamDNS (DNS (config X)) = [''tls://1.1.1.1'', ''tls://1.0.0.1'']"
proof -
  have r: "readConfigFile X c w = Inr None"
    using assms by (rule readConfigFile_absent)
  then have p: "parseConfig X c w = (None, c)"
    by (simp add: parseConfig_def)
  have d: "BindPort (config X) = 3000 \<and> Port (DNS (config X)) = 53 \<and>
         UpstreamDNS (DNS (config X)) = [''tls://1.1.1.1'', ''tls://1.0.0.1'']"
    by (simp add: config_def defaultDNS_def)
  from r p d show ?thesis by simp
qed

theorem C6_witness:
  "files empty_world (getConfigFilename X0 (config X0)) = None \<and>
   readConfigFile X0 (config X0) empty_world = Inr None \<and>
   parseConfig X0 (config X0) empty_world = (None, config X0) \<and>
   BindPort (snd (parseConfig X0 (config X0) empty_world)) = 3000 \<and>
   Port (DNS (snd (parseConfig X0 (config X0) empty_world))) = 53 \<and>
   UpstreamDNS (DNS (snd (parseConfig X0 (config X0) empty_world))) =
     [''tls://1.1.1.1'', ''tls://1.0.0.1''] \<and>
   map URL (Filters (snd (parseConfig X0 (config X0) empty_world))) =
     [''https://adguardteam.github.io/AdGuardSDNSFilter/Filters/filter.txt'',
      ''https://adaway.org/hosts.txt'',
      ''https://hosts-file.net/ad_servers.txt'',
      ''http://www.malwaredomainlist.com/hostslist/hosts.txt'']"
proof -
  have h: "files empty_world (getConfigFilename X0 (config X0)) = None"
    by (simp add: empty_world_def)
  have u: "map URL (Filters (config X0)) =
     [''https://adguardteam.github.io/AdGuardSDNSFilter/Filters/filter.txt'',
      ''https://adaway.org/hosts.txt'',
      ''https://hosts-file.net/ad_servers.txt'',
      ''http://www.malwaredomainlist.com/hostslist/hosts.txt'']"
    by (simp add: config_def)
  from h u C6_absent_file_keeps_defaults [OF h] show ?thesis by simp
qed

lemma unmarshal_configuration_normalizer:
  "unmarshal_configuration (X\<lparr>deduplicateFilters := d, updateUniqueFilterID := u\<rparr>) =
   unmarshal_configuration X"
  by (simp add: fun_eq_iff unmarshal_configuration_def configuration_fields_def
      tlsConfig_fields_def tlsConfigSettings_fields_def zero_configuration_def
      zero_tlsConfig_def zero_tlsConfigSettings_def)

lemma readConfigFile_normalizer:
  "readConfigFile (X\<lparr>deduplicateFilters := d, updateUniqueFilterID := u\<rparr>) c w =
   readConfigFile X c w"
  by (simp add: readConfigFile_def)

lemma yaml_Unmarshal_normalizer:
  "yaml_Unmarshal (X\<lparr>deduplicateFilters := d, updateUniqueFilterID := u\<rparr>) dec input out =
   yaml_Unmarshal X dec input out"
  by (simp add: yaml_Unmarshal_def)

text \<open>
  C10. When the configuration file is absent, \<^verbatim>\<open>parseConfig\<close> returns success and the
  configuration it was given, whatever \<^verbatim>\<open>deduplicateFilters\<close> and
  \<^verbatim>\<open>updateUniqueFilterID\<close> would do: neither is run, and the filter list stays as
  constructed. The same holds whenever \<^verbatim>\<open>parseConfig\<close> returns an error: the two run
  only after a successful unmarshal.
\<close>

theorem C10_normalizer_only_after_unmarshal:
  "(files w (getConfigFilename X c) = None \<longrightarrow>
      parseConfig (X\<lparr>deduplicateFilters := d, updateUniqueFilterID := u\<rparr>) c w = (None, c)) \<and>
   (fst (parseConfig X c w) \<noteq> None \<longrightarrow>
      parseConfig (X\<lparr>deduplicateFilters := d, updateUniqueFilterID := u\<rparr>) c w =
      parseConfig X c w)"
proof (intro conjI impI)
  assume "files w (getConfigFilename X c) = None"
  then show "parseConfig (X\<lparr>deduplicateFilters := d, updateUniqueFilterID := u\<rparr>) c w = (None, c)"
    by (simp add: parseConfig_def readConfigFile_def)
next
  assume "fst (parseConfig X c w) \<noteq> None"
  then show "parseConfig (X\<lparr>deduplicateFilters := d, updateUniqueFilterID := u\<rparr>) c w =
      parseConfig X c w"
    by (auto simp: parseConfig_def readConfigFile_normalizer yaml_Unmarshal_normalizer
        unmarshal_configuration_normalizer Let_def split: sum.splits option.splits prod.splits)
qed

theorem C10_witness:
  "files empty_world (getConfigFilename X0 (config X0)) = None \<and>
   parseConfig (X0\<lparr>deduplicateFilters := (\<lambda>c. c\<lparr>Filters := []\<rparr>), updateUniqueFilterID := rev\<rparr>)
     (config X0) empty_world = (None, config X0) \<and>
   map fid (Filters (config X0)) = [1, 2, 3, 4] \<and>
   fst (parseConfig X0 (config X0) bad_file_world) \<noteq> None \<and>
   parseConfig (X0\<lparr>deduplicateFilters := (\<lambda>c. c\<lparr>Filters := []\<rparr>), updateUniqueFilterID := rev\<rparr>)
     (config X0) bad_file_world = parseConfig X0 (config X0) bad_file_world"
proof -
  have h: "files empty_world (getConfigFilename X0 (config X0)) = None"
    by (simp add: empty_world_def)
  have p: "yaml_parse X0 sample_bad_file = SyntaxError ''did not find expected node content''"
    by (simp add: X0_def sample_bad_file_def sample_log_file_def sample_filters_file_def)
  have n: "getConfigFilename X0 (config X0) = ''AdGuardHome.yaml''"
    by (simp add: getConfigFilename_def X0_def config_def)
  have e: "fst (parseConfig X0 (config X0) bad_file_world) \<noteq> None"
    by (simp add: parseConfig_def readConfigFile_def n bad_file_world_def yaml_Unmarshal_def p)
  have i: "map fid (Filters (config X0)) = [1, 2, 3, 4]"
    by (simp add: config_def)
  note t = C10_normalizer_only_after_unmarshal [where X = X0 and c = "config X0"
      and d = "\<lambda>c. c\<lparr>Filters := []\<rparr>" and u = rev]
  from h e i t [where w = empty_world, THEN conjunct1, rule_format, OF h]
    t [where w = bad_file_world, THEN conjunct2, rule_format, OF e]
  show ?thesis by blast
qed

text \<open>
  C8, as the code has it. \<^verbatim>\<open>getLogSettings\<close> returns logging settings and never an
  error. When the file is absent or unreadable, or its bytes are not parseable YAML, they
  are the defaults (empty log file, not verbose). When the bytes parse, they are what
  decoding the document into the defaults leaves, whether or not the decoding reported a
  type error: the error is dropped and the fields that decoded are kept.
\<close>

theorem C8_log_settings:
  "(readConfigFile X c w = Inl err \<longrightarrow> getLogSettings X c w = zero_logSettings) \<and>
   (readConfigFile X c w = Inr None \<longrightarrow> getLogSettings X c w = zero_logSettings) \<and>
   (readConfigFile X c w = Inr (Some input) \<and> yaml_parse X input = SyntaxError msg \<longrightarrow>
      getLogSettings X c w = zero_logSettings) \<and>
   (readConfigFile X c w = Inr (Some input) \<and> yaml_parse X input = Document n \<longrightarrow>
      getLogSettings X c w =
        (case dec_struct logSettings_fields zero_logSettings n zero_logSettings of
           Decoded l es \<Rightarrow> l | Failed es \<Rightarrow> zero_logSettings))"
  by (simp add: getLogSettings_def yaml_Unmarshal_def Let_def split: decoded.splits)

theorem C8_witness:
  "readConfigFile X0 (config X0) unreadable_world = Inl (ReadFileError ''AdGuardHome.yaml'') \<and>
   getLogSettings X0 (config X0) unreadable_world = zero_logSettings \<and>
   readConfigFile X0 (config X0) empty_world = Inr None \<and>
   getLogSettings X0 (config X0) empty_world = zero_logSettings \<and>
   readConfigFile X0 (config X0) bad_file_world = Inr (Some sample_bad_file) \<and>
   yaml_parse X0 sample_bad_file = SyntaxError ''did not find expected node content'' \<and>
   getLogSettings X0 (config X0) bad_file_world = zero_logSettings \<and>
   readConfigFile X0 (config X0) log_file_world = Inr (Some sample_log_file) \<and>
   yaml_parse X0 sample_log_file = Document sample_log_doc \<and>
   getLogSettings X0 (config X0) log_file_world = \<lparr> LogFile = ''agh.log'', Verbose = False \<rparr>"
proof -
  have name: "getConfigFilename X0 (config X0) = ''AdGuardHome.yaml''"
    by (simp add: getConfigFilename_def X0_def config_def)
  have r1: "readConfigFile X0 (config X0) unreadable_world = Inl (ReadFileError ''AdGuardHome.yaml'')"
    by (simp add: readConfigFile_def name unreadable_world_def)
  have r2: "readConfigFile X0 (config X0) empty_world = Inr None"
    by (simp add: readConfigFile_def name empty_world_def)
  have r3: "readConfigFile X0 (config X0) bad_file_world = Inr (Some sample_bad_file)"
    by (simp add: readConfigFile_def name bad_file_world_def)
  have p3: "yaml_parse X0 sample_bad_file = SyntaxError ''did not find expected node content''"
    by (simp add: X0_def sample_bad_file_def sample_log_file_def sample_filters_file_def)
  have r4: "readConfigFile X0 (config X0) log_file_world = Inr (Some sample_log_file)"
    by (simp add: readConfigFile_def name log_file_world_def)
  have p4: "yaml_parse X0 sample_log_file = Document sample_log_doc"
    by (simp add: X0_def sample_log_file_def)
  have d4: "(case dec_struct logSettings_fields zero_logSettings sample_log_doc zero_logSettings of
           Decoded l es \<Rightarrow> l | Failed es \<Rightarrow> zero_logSettings) =
        \<lparr> LogFile = ''agh.log'', Verbose = False \<rparr>"
    by (simp add: sample_log_doc_def logSettings_fields_def field_def mapping_step_def
        zero_logSettings_def)
  note t = C8_log_settings [of X0 "config X0"]
  note t1 = t [of unreadable_world "ReadFileError ''AdGuardHome.yaml''", THEN conjunct1,
      rule_format, OF r1]
  note t2 = t [of empty_world, THEN conjunct2, THEN conjunct1, rule_format, OF r2]
  note t3 = t [of bad_file_world _ sample_bad_file "''did not find expected node content''",
      THEN conjunct2, THEN conjunct2, THEN conjunct1, rule_format, OF conjI [OF r3 p3]]
  note t4 = t [of log_file_world _ sample_log_file _ sample_log_doc,
      THEN conjunct2, THEN conjunct2, THEN conjunct2, rule_format, OF conjI [OF r4 p4]]
  from r1 r2 r3 p3 r4 p4 t1 t2 t3 t4 [unfolded d4] show ?thesis
    by blast
qed

text \<open>
  C8, as the spec has it, fails: for the file \<^verbatim>\<open>log_file: agh.log\<close>,
  \<^verbatim>\<open>verbose: maybe\<close> the deserialization fails with a type error and the settings
  returned hold the log file \<^verbatim>\<open>agh.log\<close>, not the default.
\<close>

theorem C8_counterexample:
  "snd (yaml_Unmarshal X0 (dec_struct logSettings_fields zero_logSettings) sample_log_file
          zero_logSettings) = Some (YamlTypeError [CannotUnmarshalInto ''bool'']) \<and>
   readConfigFile X0 (config X0) log_file_world = Inr (Some sample_log_file) \<and>
   getLogSettings X0 (config X0) log_file_world = \<lparr> LogFile = ''agh.log'', Verbose = False \<rparr> \<and>
   getLogSettings X0 (config X0) log_file_world \<noteq> zero_logSettings"
  by (simp add: getLogSettings_def readConfigFile_def getConfigFilename_def yaml_Unmarshal_def
      X0_def config_def log_file_world_def sample_log_file_def sample_log_doc_def
      logSettings_fields_def field_def mapping_step_def zero_logSettings_def Let_def)

subsection \<open>Persisting\<close>

lemma calls_write_file: "calls (snd (write_file p d w)) = calls w"
  by (simp add: write_file_def)

lemma calls_configuration_write:
  "filter (\<lambda>x. x = UserFilterSave) (calls (snd (configuration_write X c w))) =
   filter (\<lambda>x. x = UserFilterSave) (calls w)"
  by (simp add: configuration_write_def safeWriteFile_def write_file_def Let_def
      split: sum.splits)

text \<open>
  C7. With the first-run flag set, \<^verbatim>\<open>configuration.write\<close> returns no error and the
  world it leaves is the world it found: no file is created or modified and no write is
  started.
\<close>

theorem C7_first_run_write_is_noop:
  "firstRun c \<Longrightarrow> configuration_write X c w = (None, w)"
  by (simp add: configuration_write_def)

theorem C7_witness:
  "firstRun ((config X0)\<lparr>firstRun := True\<rparr>) \<and>
   configuration_write X0 ((config X0)\<lparr>firstRun := True\<rparr>) empty_world = (None, empty_world)"
  using C7_first_run_write_is_noop [of "(config X0)\<lparr>firstRun := True\<rparr>" X0 empty_world]
  by simp

text \<open>
  C2, as the code has it. \<^verbatim>\<open>writeAllConfigs\<close> starts with the configuration write. When
  that returns an error, \<^verbatim>\<open>writeAllConfigs\<close> returns this error at once and the user
  filter's save is not started. When it succeeds, the user filter's save is started and
  its outcome is what \<^verbatim>\<open>writeAllConfigs\<close> returns.
\<close>

theorem C2_write_then_save:
  "(configuration_write X c w = (Some err, w1) \<longrightarrow>
      writeAllConfigs X c w = (Some err, w1) \<and>
      filter (\<lambda>x. x = UserFilterSave) (calls w1) = filter (\<lambda>x. x = UserFilterSave) (calls w)) \<and>
   (configuration_write X c w = (None, w1) \<longrightarrow>
      writeAllConfigs X c w = userFilter_save X c w1 \<and>
      UserFilterSave \<in> set (calls (snd (writeAllConfigs X c w))))"
proof (intro conjI impI)
  assume a: "configuration_write X c w = (Some err, w1)"
  show "writeAllConfigs X c w = (Some err, w1)"
    by (simp add: writeAllConfigs_def a)
  show "filter (\<lambda>x. x = UserFilterSave) (calls w1) = filter (\<lambda>x. x = UserFilterSave) (calls w)"
    using calls_configuration_write [of X c w] by (simp add: a)
next
  assume a: "configuration_write X c w = (None, w1)"
  show "writeAllConfigs X c w = userFilter_save X c w1"
    by (simp add: writeAllConfigs_def a split: prod.splits option.splits)
  then show "UserFilterSave \<in> set (calls (snd (writeAllConfigs X c w)))"
    by (simp add: userFilter_save_def calls_write_file)
qed

theorem C2_witness:
  "configuration_write X0 (config X0) read_only_world =
     (Some (WriteFileError ''AdGuardHome.yaml''),
      read_only_world\<lparr>calls := [SafeWriteFile ''AdGuardHome.yaml'' sample_config_file]\<rparr>) \<and>
   writeAllConfigs X0 (config X0) read_only_world =
     (Some (WriteFileError ''AdGuardHome.yaml''),
      read_only_world\<lparr>calls := [SafeWriteFile ''AdGuardHome.yaml'' sample_config_file]\<rparr>) \<and>
   configuration_write X0 (config X0) empty_world =
     (None, empty_world\<lparr>files := (files empty_world)(''AdGuardHome.yaml'' \<mapsto> Content sample_config_file),
                         calls := [SafeWriteFile ''AdGuardHome.yaml'' sample_config_file]\<rparr>) \<and>
   UserFilterSave \<in> set (calls (snd (writeAllConfigs X0 (config X0) empty_world)))"
proof -
  let ?w1 = "read_only_world\<lparr>calls := [SafeWriteFile ''AdGuardHome.yaml'' sample_config_file]\<rparr>"
  let ?w2 = "empty_world\<lparr>files := (files empty_world)(''AdGuardHome.yaml'' \<mapsto> Content sample_config_file),
                         calls := [SafeWriteFile ''AdGuardHome.yaml'' sample_config_file]\<rparr>"
  have a: "configuration_write X0 (config X0) read_only_world =
          (Some (WriteFileError ''AdGuardHome.yaml''), ?w1)"
    by (simp add: configuration_write_def yaml_Marshal_def safeWriteFile_def
      write_file_def X0_def config_def read_only_world_def getConfigFilename_def Let_def)
  have b: "configuration_write X0 (config X0) empty_world = (None, ?w2)"
    by (simp add: configuration_write_def yaml_Marshal_def safeWriteFile_def
      write_file_def X0_def config_def empty_world_def getConfigFilename_def Let_def)
  note t1 = C2_write_then_save [of X0 "config X0" read_only_world
      "WriteFileError ''AdGuardHome.yaml''" ?w1, THEN conjunct1, rule_format, OF a]
  note t2 = C2_write_then_save [of X0 "config X0" empty_world
      "WriteFileError ''AdGuardHome.yaml''" ?w2, THEN conjunct2, rule_format, OF b]
  from a b t1 t2 show ?thesis by blast
qed

text \<open>
  C2, as the spec has it, fails: on a file system where nothing can be written the
  configuration write returns an error and the user filter's save is never started.
\<close>

theorem C2_counterexample:
  "fst (configuration_write X0 (config X0) read_only_world) \<noteq> None \<and>
   UserFilterSave \<notin> set (calls (snd (writeAllConfigs X0 (config X0) read_only_world)))"
proof -
  have "configuration_write X0 (config X0) read_only_world =
          (Some (WriteFileError ''AdGuardHome.yaml''),
           read_only_world\<lparr>calls := [SafeWriteFile ''AdGuardHome.yaml'' sample_config_file]\<rparr>)"
    by (simp add: configuration_write_def yaml_Marshal_def safeWriteFile_def
      write_file_def X0_def config_def read_only_world_def getConfigFilename_def Let_def)
  then show ?thesis
    by (simp add: writeAllConfigs_def)
qed

lemma configuration_write_marshals:
  "\<not> firstRun c \<Longrightarrow>
   configuration_write X c w =
     (case yaml_emit X (marshal_configuration X c) of
        Inl err \<Rightarrow> (Some err, w)
      | Inr text \<Rightarrow> safeWriteFile (getConfigFilename X c) text w)"
  by (simp add: configuration_write_def yaml_Marshal_def Let_def
      split: sum.splits prod.splits option.splits)

text \<open>
  C3. The marshal step of \<^verbatim>\<open>configuration.write\<close>, \<^verbatim>\<open>yaml.Marshal(&config)\<close>, hands
  the emitter the tree of the configuration, and when the first-run flag is not set
  \<^verbatim>\<open>configuration.write\<close> passes the emitter's text for this tree to
  \<^verbatim>\<open>safeWriteFile\<close> (or returns the emitter's error). The tree has the top-level keys
  bind_host, bind_port, auth_name, auth_pass, language, dns, tls, filters, user_rules,
  dhcp, log_file, verbose, schema_version, in this order, schema_version last; and it does
  not depend on the TLS status fields.
\<close>

theorem C3_top_level_key_order:
  "yaml_Marshal X (marshal_configuration X) c = yaml_emit X (marshal_configuration X c) \<and>
   (\<not> firstRun c \<longrightarrow>
      configuration_write X c w =
        (case yaml_emit X (marshal_configuration X c) of
           Inl err \<Rightarrow> (Some err, w)
         | Inr text \<Rightarrow> safeWriteFile (getConfigFilename X c) text w)) \<and>
   yaml_keys (marshal_configuration X c) =
     [''bind_host'', ''bind_port'', ''auth_name'', ''auth_pass'', ''language'', ''dns'', ''tls'',
      ''filters'', ''user_rules'', ''dhcp'', ''log_file'', ''verbose'', ''schema_version''] \<and>
   last (yaml_keys (marshal_configuration X c)) = ''schema_version'' \<and>
   marshal_configuration X (c\<lparr>TLS := (TLS c)\<lparr>tlsConfigStatus := st\<rparr>\<rparr>) = marshal_configuration X c"
proof -
  have m: "yaml_Marshal X (marshal_configuration X) c = yaml_emit X (marshal_configuration X c)"
    by (simp add: yaml_Marshal_def)
  have k: "yaml_keys (marshal_configuration X c) =
     [''bind_host'', ''bind_port'', ''auth_name'', ''auth_pass'', ''language'', ''dns'', ''tls'',
      ''filters'', ''user_rules'', ''dhcp'', ''log_file'', ''verbose'', ''schema_version''] \<and>
   last (yaml_keys (marshal_configuration X c)) = ''schema_version'' \<and>
   marshal_configuration X (c\<lparr>TLS := (TLS c)\<lparr>tlsConfigStatus := st\<rparr>\<rparr>) = marshal_configuration X c"
    by (simp add: marshal_configuration_def enc_struct_def configuration_fields_def field_def
        inline_def logSettings_fields_def tlsConfig_fields_def comp_def)
  from m k configuration_write_marshals [of c X w] show ?thesis
    by blast
qed

theorem C3_witness:
  "\<not> firstRun sample_configuration \<and>
   yaml_Marshal X1 (marshal_configuration X1) sample_configuration =
     Inr (render (marshal_configuration X1 sample_configuration)) \<and>
   configuration_write X1 sample_configuration empty_world =
     (None,
      empty_world
        \<lparr>files := (files empty_world)
                    (''AdGuardHome.yaml'' \<mapsto> Content (render (marshal_configuration X1 sample_configuration))),
         calls := [SafeWriteFile ''AdGuardHome.yaml''
                     (render (marshal_configuration X1 sample_configuration))]\<rparr>) \<and>
   yaml_keys (marshal_configuration X1 sample_configuration) =
     [''bind_host'', ''bind_port'', ''auth_name'', ''auth_pass'', ''language'', ''dns'', ''tls'',
      ''filters'', ''user_rules'', ''dhcp'', ''log_file'', ''verbose'', ''schema_version'']"
proof -
  have f: "\<not> firstRun sample_configuration"
    by (simp add: sample_configuration_def config_def)
  have e: "yaml_emit X1 (marshal_configuration X1 sample_configuration) =
      Inr (render (marshal_configuration X1 sample_configuration))"
    by (simp add: X1_def)
  have n: "getConfigFilename X1 sample_configuration = ''AdGuardHome.yaml''"
    by (simp add: getConfigFilename_def X1_def X0_def sample_configuration_def config_def)
  note t = C3_top_level_key_order [of X1 sample_configuration empty_world]
  have "configuration_write X1 sample_configuration empty_world =
      safeWriteFile ''AdGuardHome.yaml'' (render (marshal_configuration X1 sample_configuration))
        empty_world"
    using t [THEN conjunct2, THEN conjunct1, rule_format, OF f] by (simp add: e n)
  then have w: "configuration_write X1 sample_configuration empty_world =
     (None,
      empty_world
        \<lparr>files := (files empty_world)
                    (''AdGuardHome.yaml'' \<mapsto> Content (render (marshal_configuration X1 sample_configuration))),
         calls := [SafeWriteFile ''AdGuardHome.yaml''
                     (render (marshal_configuration X1 sample_configuration))]\<rparr>)"
    by (simp add: safeWriteFile_def write_file_def empty_world_def)
  from f w t [THEN conjunct1] t [THEN conjunct2, THEN conjunct2, THEN conjunct1] e
  show ?thesis by simp
qed

text \<open>
  C4, on the code. The keys of the marshalled tls section are enaled, server_name,
  force_https, port_https, port_dns_over_tls, followed by the keys of
  \<^verbatim>\<open>dnsforward.TLSConfig\<close>; the TLS enabled flag is the value under the key
  \<^verbatim>\<open>enaled\<close>, as the tag on line 66 spells it.
\<close>

theorem C4_tls_keys:
  "map_option yaml_keys (yaml_get ''tls'' (marshal_configuration X c)) =
     Some ([''enaled'', ''server_name'', ''force_https'', ''port_https'', ''port_dns_over_tls'']
           @ map fkey (TLSConfig_fields X)) \<and>
   map_option (yaml_get ''enaled'') (yaml_get ''tls'' (marshal_configuration X c)) =
     Some (Some (enc_bool (tlsConfigSettings.Enabled (tlsConfigSettings (TLS c)))))"
  by (simp add: marshal_configuration_def enc_struct_def configuration_fields_def field_def
      inline_def logSettings_fields_def tlsConfig_fields_def tlsConfigSettings_fields_def comp_def)

subsection \<open>Round trip\<close>













subsection \<open>The filter normalizer\<close>

lemma dedup_urls_urls:
  "distinct (map URL (dedup_urls seen fs)) \<and>
   set (map URL (dedup_urls seen fs)) = set (map URL fs) - set seen"
  by (induction fs arbitrary: seen) auto

lemma dedup_urls_unseen: "f \<in> set (dedup_urls seen fs) \<Longrightarrow> URL f \<notin> set seen"
  using dedup_urls_urls [of seen fs] by auto

lemma dedup_urls_first:
  "f \<in> set (dedup_urls seen fs) \<Longrightarrow> find (\<lambda>g. URL g = URL f) fs = Some f"
proof (induction fs arbitrary: seen)
  case Nil
  then show ?case by simp
next
  case (Cons g fs)
  show ?case
  proof (cases "URL g \<in> set seen")
    case True
    with Cons.prems have m: "f \<in> set (dedup_urls seen fs)" by simp
    then have "URL f \<notin> set seen" by (rule dedup_urls_unseen)
    with True have "URL g \<noteq> URL f" by auto
    with Cons.IH [OF m] show ?thesis by simp
  next
    case False
    with Cons.prems have "f = g \<or> f \<in> set (dedup_urls (URL g # seen) fs)" by simp
    then show ?thesis
    proof
      assume "f = g" then show ?thesis by simp
    next
      assume m: "f \<in> set (dedup_urls (URL g # seen) fs)"
      then have "URL f \<notin> set (URL g # seen)" by (rule dedup_urls_unseen)
      then have "URL g \<noteq> URL f" by auto
      with Cons.IH [OF m] show ?thesis by simp
    qed
  qed
qed

lemma dedup_urls_subseq: "subseq (dedup_urls seen fs) fs"
  by (induction fs arbitrary: seen) auto

lemma max_ID_upper: "f \<in> set fs \<Longrightarrow> fid f \<le> max_ID fs"
  by (induction fs) auto

lemma max_ID_nonneg: "0 \<le> max_ID fs"
  by (induction fs) auto

lemma assign_IDs_other_fields:
  "map (\<lambda>f. (Enabled f, URL f, Name f)) (assign_IDs free seen fs) =
   map (\<lambda>f. (Enabled f, URL f, Name f)) fs"
  by (induction fs arbitrary: free seen) auto

lemma assign_IDs_ids:
  "i \<in> set (map fid (assign_IDs free seen fs)) \<Longrightarrow> (0 < i \<and> i \<in> fid ` set fs) \<or> free \<le> i"
  by (induction fs arbitrary: free seen) (fastforce split: if_splits)+

lemma assign_IDs_distinct:
  "\<forall>s\<in>set seen. s < free \<Longrightarrow> \<forall>f\<in>set fs. fid f < free \<Longrightarrow>
   distinct (map fid (assign_IDs free seen fs)) \<and>
   set (map fid (assign_IDs free seen fs)) \<inter> set seen = {}"
proof (induction fs arbitrary: free seen)
  case Nil
  then show ?case by simp
next
  case (Cons f fs)
  show ?case
  proof (cases "fid f \<le> 0 \<or> fid f \<in> set seen")
    case True
    have "\<forall>s\<in>set (free # seen). s < free + 1" using Cons.prems(1) by auto
    moreover have "\<forall>g\<in>set fs. fid g < free + 1" using Cons.prems(2) by auto
    ultimately have ih: "distinct (map fid (assign_IDs (free + 1) (free # seen) fs)) \<and>
      set (map fid (assign_IDs (free + 1) (free # seen) fs)) \<inter> set (free # seen) = {}"
      by (rule Cons.IH)
    have "free \<notin> set seen" using Cons.prems(1) by auto
    with ih True show ?thesis by auto
  next
    case False
    have "\<forall>s\<in>set (fid f # seen). s < free" using Cons.prems by auto
    moreover have "\<forall>g\<in>set fs. fid g < free" using Cons.prems(2) by auto
    ultimately have ih: "distinct (map fid (assign_IDs free (fid f # seen) fs)) \<and>
      set (map fid (assign_IDs free (fid f # seen) fs)) \<inter> set (fid f # seen) = {}"
      by (rule Cons.IH)
    with False show ?thesis by auto
  qed
qed

lemma assign_IDs_positive:
  "0 < free \<Longrightarrow> f \<in> set (assign_IDs free seen fs) \<Longrightarrow> 0 < fid f"
proof (induction fs arbitrary: free seen)
  case Nil
  then show ?case by simp
next
  case (Cons g fs)
  show ?case
  proof (cases "fid g \<le> 0 \<or> fid g \<in> set seen")
    case True
    with Cons.prems(2)
    have "fid f = free \<or> f \<in> set (assign_IDs (free + 1) (free # seen) fs)" by auto
    then show ?thesis
    proof
      assume "fid f = free" with Cons.prems(1) show ?thesis by simp
    next
      assume m: "f \<in> set (assign_IDs (free + 1) (free # seen) fs)"
      have "0 < free + 1" using Cons.prems(1) by simp
      then show ?thesis using m by (rule Cons.IH)
    qed
  next
    case False
    with Cons.prems(2)
    have "f = g \<or> f \<in> set (assign_IDs free (fid g # seen) fs)" by auto
    then show ?thesis
    proof
      assume "f = g" with False show ?thesis by auto
    next
      assume "f \<in> set (assign_IDs free (fid g # seen) fs)"
      with Cons.prems(1) show ?thesis by (rule Cons.IH)
    qed
  qed
qed

lemma assign_IDs_kept:
  "\<forall>f\<in>set fs. fid f < free \<Longrightarrow> i < length fs \<Longrightarrow>
   (fid (assign_IDs free seen fs ! i) = fid (fs ! i)) =
   (0 < fid (fs ! i) \<and> fid (fs ! i) \<notin> set seen \<union> set (take i (map fid fs)))"
proof (induction fs arbitrary: free seen i)
  case Nil
  then show ?case by simp
next
  case (Cons f fs)
  show ?case
  proof (cases i)
    case 0
    with Cons.prems show ?thesis by auto
  next
    case (Suc j)
    with Cons.prems have j: "j < length fs" by simp
    have lt: "fid (fs ! j) < free" using Cons.prems(1) j by simp
    show ?thesis
    proof (cases "fid f \<le> 0 \<or> fid f \<in> set seen")
      case True
      have "\<forall>g\<in>set fs. fid g < free + 1" using Cons.prems(1) by auto
      from Cons.IH [OF this j, of "free # seen"] True lt Suc show ?thesis by auto
    next
      case False
      have "\<forall>g\<in>set fs. fid g < free" using Cons.prems(1) by auto
      from Cons.IH [OF this j, of "fid f # seen"] False Suc show ?thesis by auto
    qed
  qed
qed

lemma assign_IDs_fresh:
  "\<forall>f\<in>set fs. fid f < free \<Longrightarrow>
   \<exists>k. filter (\<lambda>i. free \<le> i) (map fid (assign_IDs free seen fs)) = map (\<lambda>j. free + int j) [0..<k]"
proof (induction fs arbitrary: free seen)
  case Nil
  then show ?case by simp
next
  case (Cons f fs)
  show ?case
  proof (cases "fid f \<le> 0 \<or> fid f \<in> set seen")
    case True
    let ?rest = "map fid (assign_IDs (free + 1) (free # seen) fs)"
    have b: "\<forall>g\<in>set fs. fid g < free + 1" using Cons.prems by auto
    from Cons.IH [OF b, of "free # seen"]
    obtain k where k: "filter (\<lambda>i. free + 1 \<le> i) ?rest = map (\<lambda>j. free + 1 + int j) [0..<k]"
      by blast
    have "\<And>i. i \<in> set ?rest \<Longrightarrow> (free \<le> i) = (free + 1 \<le> i)"
      using assign_IDs_ids [of _ "free + 1" "free # seen" fs] Cons.prems by fastforce
    then have "filter (\<lambda>i. free \<le> i) ?rest = filter (\<lambda>i. free + 1 \<le> i) ?rest"
      by (intro filter_cong) auto
    with k have "filter (\<lambda>i. free \<le> i) (map fid (assign_IDs free seen (f # fs))) =
        free # map (\<lambda>j. free + 1 + int j) [0..<k]"
      using True by simp
    also have "\<dots> = map (\<lambda>j. free + int j) [0..<Suc k]"
      by (simp add: upt_conv_Cons map_Suc_upt [symmetric] del: upt_Suc)
    finally show ?thesis by blast
  next
    case False
    have b: "\<forall>g\<in>set fs. fid g < free" using Cons.prems by auto
    from Cons.IH [OF b, of "fid f # seen"]
    obtain k where "filter (\<lambda>i. free \<le> i) (map fid (assign_IDs free (fid f # seen) fs)) =
        map (\<lambda>j. free + int j) [0..<k]"
      by blast
    moreover have "fid f < free" using Cons.prems by simp
    ultimately show ?thesis using False by auto
  qed
qed

lemma assign_IDs_replaced:
  "\<forall>f\<in>set fs. fid f < free \<Longrightarrow> i < length fs \<Longrightarrow>
   fid (assign_IDs free seen fs ! i) = fid (fs ! i) \<or> free \<le> fid (assign_IDs free seen fs ! i)"
proof (induction fs arbitrary: free seen i)
  case Nil
  then show ?case by simp
next
  case (Cons f fs)
  show ?case
  proof (cases i)
    case 0
    then show ?thesis by auto
  next
    case (Suc j)
    with Cons.prems have j: "j < length fs" by simp
    show ?thesis
    proof (cases "fid f \<le> 0 \<or> fid f \<in> set seen")
      case True
      have "\<forall>g\<in>set fs. fid g < free + 1" using Cons.prems(1) by auto
      from Cons.IH [OF this j, of "free # seen"] True Suc show ?thesis by auto
    next
      case False
      have "\<forall>g\<in>set fs. fid g < free" using Cons.prems(1) by auto
      from Cons.IH [OF this j, of "fid f # seen"] False Suc show ?thesis by auto
    qed
  qed
qed

lemma max_ID_lacking: "\<forall>f\<in>set fs. fid f \<le> 0 \<Longrightarrow> max_ID fs = 0"
  by (induction fs) auto

lemma assign_IDs_all_lacking:
  "\<forall>f\<in>set fs. fid f \<le> 0 \<Longrightarrow>
   map fid (assign_IDs free seen fs) = map (\<lambda>j. free + int j) [0..<length fs]"
proof (induction fs arbitrary: free seen)
  case Nil
  then show ?case by simp
next
  case (Cons f fs)
  have "\<forall>g\<in>set fs. fid g \<le> 0" using Cons.prems by simp
  from Cons.IH [OF this, of "free + 1" "free # seen"]
  have "map fid (assign_IDs free seen (f # fs)) =
      free # map (\<lambda>j. free + 1 + int j) [0..<length fs]"
    using Cons.prems by simp
  also have "\<dots> = map (\<lambda>j. free + int j) [0..<Suc (length fs)]"
    by (simp add: upt_conv_Cons map_Suc_upt [symmetric] del: upt_Suc)
  finally show ?case by simp
qed

lemma parseConfig_normalizes:
  assumes "deduplicateFilters X = spec_deduplicateFilters"
    and "updateUniqueFilterID X = spec_updateUniqueFilterID"
    and "readConfigFile X c w = Inr (Some input)"
    and "yaml_Unmarshal X (unmarshal_configuration X) input c = (c1, None)"
  shows "parseConfig X c w = (None, c1\<lparr>Filters := normalize_filters (Filters c1)\<rparr>)"
  using assms
  by (simp add: parseConfig_def Let_def spec_deduplicateFilters_def normalize_filters_def)

lemma dedup_urls_id:
  "distinct (map URL fs) \<Longrightarrow> set (map URL fs) \<inter> set seen = {} \<Longrightarrow> dedup_urls seen fs = fs"
  by (induction fs arbitrary: seen) auto

lemma assign_IDs_id:
  "distinct (map fid fs) \<Longrightarrow> set (map fid fs) \<inter> set seen = {} \<Longrightarrow> \<forall>f\<in>set fs. 0 < fid f \<Longrightarrow>
   assign_IDs free seen fs = fs"
  by (induction fs arbitrary: seen) auto

lemma assign_IDs_urls: "map URL (assign_IDs free seen fs) = map URL fs"
  by (induction fs arbitrary: free seen) auto

text \<open>
  The spec asks the normalizer to be idempotent: a second run changes nothing.
\<close>

lemma normalize_filters_idempotent:
  "normalize_filters (normalize_filters fs) = normalize_filters fs"
proof -
  let ?d = "dedup_urls [] fs"
  let ?m = "max_ID ?d"
  let ?r = "normalize_filters fs"
  have r: "?r = assign_IDs (?m + 1) [] ?d"
    by (simp add: normalize_filters_def spec_updateUniqueFilterID_def)
  have below: "\<forall>f\<in>set ?d. fid f < ?m + 1"
    using max_ID_upper [of _ ?d] by fastforce
  have pos: "0 < ?m + 1"
    using max_ID_nonneg [of ?d] by simp
  have "distinct (map URL ?r)"
    using dedup_urls_urls [of "[]" fs] by (simp add: r assign_IDs_urls)
  then have d: "dedup_urls [] ?r = ?r"
    by (simp add: dedup_urls_id)
  have 1: "distinct (map fid ?r)"
    using assign_IDs_distinct [of "[]" "?m + 1" ?d] below by (simp add: r)
  have 2: "\<forall>f\<in>set ?r. 0 < fid f"
    using assign_IDs_positive [OF pos] by (simp add: r)
  have "assign_IDs (max_ID ?r + 1) [] ?r = ?r"
    using 1 2 by (simp add: assign_IDs_id)
  then show ?thesis
    using d by (simp add: normalize_filters_def [of ?r] spec_updateUniqueFilterID_def)
qed

text \<open>
  C9. With the normalizer as the spec describes it, a successful \<^verbatim>\<open>parseConfig\<close> of a
  present file leaves the filter list normalized, and for every loaded list \<open>fs\<close> the
  normalized list has pairwise different identifiers, all strictly positive; it differs
  from the deduplicated list in identifiers only; the deduplicated list has pairwise
  different URLs, all the URLs of \<open>fs\<close>, in the order of \<open>fs\<close>, each entry being the
  first of \<open>fs\<close> with its URL; an entry keeps its identifier exactly when the identifier is
  positive and no earlier entry holds it, and otherwise gets one above the largest
  identifier loaded; the identifiers above the largest loaded one are consecutive, in list
  order, from one more than it; when no entry has a positive identifier, the identifiers
  are 1, 2, 3 and so on in list order.
\<close>

theorem C9_normalized_filters:
  "(deduplicateFilters X = spec_deduplicateFilters \<and>
    updateUniqueFilterID X = spec_updateUniqueFilterID \<and>
    readConfigFile X c w = Inr (Some input) \<and>
    yaml_Unmarshal X (unmarshal_configuration X) input c = (c1, None) \<longrightarrow>
      parseConfig X c w = (None, c1\<lparr>Filters := normalize_filters (Filters c1)\<rparr>)) \<and>
   distinct (map fid (normalize_filters fs)) \<and>
   (\<forall>f\<in>set (normalize_filters fs). 0 < fid f) \<and>
   map (\<lambda>f. (Enabled f, URL f, Name f)) (normalize_filters fs) =
     map (\<lambda>f. (Enabled f, URL f, Name f)) (dedup_urls [] fs) \<and>
   distinct (map URL (dedup_urls [] fs)) \<and>
   URL ` set (dedup_urls [] fs) = URL ` set fs \<and>
   subseq (dedup_urls [] fs) fs \<and>
   (\<forall>f\<in>set (dedup_urls [] fs). find (\<lambda>g. URL g = URL f) fs = Some f) \<and>
   (\<forall>i<length (dedup_urls [] fs).
      (fid (normalize_filters fs ! i) = fid (dedup_urls [] fs ! i)) =
      (0 < fid (dedup_urls [] fs ! i) \<and>
       fid (dedup_urls [] fs ! i) \<notin> set (take i (map fid (dedup_urls [] fs))))) \<and>
   (\<forall>i<length (dedup_urls [] fs).
      fid (normalize_filters fs ! i) = fid (dedup_urls [] fs ! i) \<or>
      max_ID (dedup_urls [] fs) < fid (normalize_filters fs ! i)) \<and>
   (\<exists>k. filter (\<lambda>i. max_ID (dedup_urls [] fs) < i) (map fid (normalize_filters fs)) =
        map (\<lambda>j. max_ID (dedup_urls [] fs) + 1 + int j) [0..<k]) \<and>
   ((\<forall>f\<in>set (dedup_urls [] fs). fid f \<le> 0) \<longrightarrow>
      map fid (normalize_filters fs) = map (\<lambda>j. 1 + int j) [0..<length (dedup_urls [] fs)])"
proof -
  let ?d = "dedup_urls [] fs"
  let ?m = "max_ID ?d"
  have r: "normalize_filters fs = assign_IDs (?m + 1) [] ?d"
    by (simp add: normalize_filters_def spec_updateUniqueFilterID_def)
  have below: "\<forall>f\<in>set ?d. fid f < ?m + 1"
    using max_ID_upper [of _ ?d] by fastforce
  have pos: "0 < ?m + 1"
    using max_ID_nonneg [of ?d] by simp
  have 1: "distinct (map fid (normalize_filters fs))"
    using assign_IDs_distinct [of "[]" "?m + 1" ?d] below by (simp add: r)
  have 2: "\<forall>f\<in>set (normalize_filters fs). 0 < fid f"
    using assign_IDs_positive [OF pos] by (simp add: r)
  have 3: "map (\<lambda>f. (Enabled f, URL f, Name f)) (normalize_filters fs) =
     map (\<lambda>f. (Enabled f, URL f, Name f)) ?d"
    by (simp add: r assign_IDs_other_fields)
  have 4: "distinct (map URL ?d)" "URL ` set ?d = URL ` set fs"
    using dedup_urls_urls [of "[]" fs] by simp_all
  have 5: "subseq ?d fs"
    by (rule dedup_urls_subseq)
  have 6: "\<forall>f\<in>set ?d. find (\<lambda>g. URL g = URL f) fs = Some f"
    using dedup_urls_first by blast
  have 7: "\<forall>i<length ?d. (fid (normalize_filters fs ! i) = fid (?d ! i)) =
      (0 < fid (?d ! i) \<and> fid (?d ! i) \<notin> set (take i (map fid ?d)))"
    using assign_IDs_kept [OF below, of _ "[]"] by (simp add: r)
  have "\<And>i::int. (?m < i) = (?m + 1 \<le> i)" by auto
  then have 8: "\<exists>k. filter (\<lambda>i. ?m < i) (map fid (normalize_filters fs)) =
        map (\<lambda>j. ?m + 1 + int j) [0..<k]"
    using assign_IDs_fresh [OF below, of "[]"] by (simp add: r)
  have 9: "\<forall>i<length ?d. fid (normalize_filters fs ! i) = fid (?d ! i) \<or>
      ?m < fid (normalize_filters fs ! i)"
    using assign_IDs_replaced [OF below, of _ "[]"] by (fastforce simp: r)
  have 10: "(\<forall>f\<in>set ?d. fid f \<le> 0) \<longrightarrow>
      map fid (normalize_filters fs) = map (\<lambda>j. 1 + int j) [0..<length ?d]"
    using assign_IDs_all_lacking [of ?d "?m + 1" "[]"] max_ID_lacking [of ?d]
    by (simp add: r)
  from parseConfig_normalizes [of X c w input c1] 1 2 3 4 5 6 7 8 9 10 show ?thesis
    by blast
qed

theorem C9_witness:
  "readConfigFile X0 (config X0) filters_world = Inr (Some sample_filters_file) \<and>
   yaml_Unmarshal X0 (unmarshal_configuration X0) sample_filters_file (config X0) =
     ((config X0)\<lparr>Filters := sample_filters\<rparr>, None) \<and>
   parseConfig X0 (config X0) filters_world =
     (None, (config X0)\<lparr>Filters := normalize_filters sample_filters\<rparr>) \<and>
   map fid (dedup_urls [] sample_filters) = [0, 2, 2] \<and>
   map Name (dedup_urls [] sample_filters) = [''A'', ''B'', ''C''] \<and>
   map fid (normalize_filters sample_filters) = [3, 2, 4] \<and>
   map Name (normalize_filters sample_filters) = [''A'', ''B'', ''C''] \<and>
   map fid (normalize_filters (map (\<lambda>f. f\<lparr>Filter := \<lparr> ID = 0 \<rparr>\<rparr>) sample_filters)) = [1, 2, 3] \<and>
   distinct (map fid (normalize_filters sample_filters))"
proof -
  note seq_filters = dec_seq_enc [of "dec_struct filter_fields zero_filter"
      "enc_struct filter_fields" zero_filter, OF dec_filter_enc]
  have d: "deduplicateFilters X0 = spec_deduplicateFilters"
    by (simp add: X0_def)
  have u: "updateUniqueFilterID X0 = spec_updateUniqueFilterID"
    by (simp add: X0_def)
  have r: "readConfigFile X0 (config X0) filters_world = Inr (Some sample_filters_file)"
    by (simp add: readConfigFile_def getConfigFilename_def X0_def config_def filters_world_def)
  have p: "yaml_parse X0 sample_filters_file = Document sample_filters_doc"
    by (simp add: X0_def) (simp add: sample_filters_file_def sample_log_file_def)
  have m: "yaml_Unmarshal X0 (unmarshal_configuration X0) sample_filters_file (config X0) =
     ((config X0)\<lparr>Filters := sample_filters\<rparr>, None)"
    by (simp add: yaml_Unmarshal_def p unmarshal_configuration_def sample_filters_doc_def
        configuration_fields_def field_def mapping_step_def seq_filters)
  have v: "map fid (dedup_urls [] sample_filters) = [0, 2, 2] \<and>
     map Name (dedup_urls [] sample_filters) = [''A'', ''B'', ''C''] \<and>
     map fid (normalize_filters sample_filters) = [3, 2, 4] \<and>
     map Name (normalize_filters sample_filters) = [''A'', ''B'', ''C''] \<and>
     map fid (normalize_filters (map (\<lambda>f. f\<lparr>Filter := \<lparr> ID = 0 \<rparr>\<rparr>) sample_filters)) = [1, 2, 3]"
    by (simp add: normalize_filters_def spec_updateUniqueFilterID_def sample_filters_def)
  note t = C9_normalized_filters [of X0 "config X0" filters_world sample_filters_file
      "(config X0)\<lparr>Filters := sample_filters\<rparr>" sample_filters]
  have t1: "parseConfig X0 (config X0) filters_world =
     (None, (config X0)\<lparr>Filters := normalize_filters sample_filters\<rparr>)"
    using t [THEN conjunct1, rule_format, OF conjI [OF d conjI [OF u conjI [OF r m]]]] by simp
  from r m t1 v t [THEN conjunct2] show ?thesis
    by simp
qed

end
